theory Spec2Isabelle
  imports Main
begin

section \<open>WSL path utilities (utils/wslPath.ts)\<close>

text \<open>
  JavaScript strings are modelled as \<open>string\<close>, one \<open>char\<close> per code unit. The two path
  separators the source's character class \<^verbatim>\<open>[\\/]\<close> accepts are the backslash and the
  slash.
\<close>

definition bslash :: char where
  "bslash = CHR 0x5C"

definition fslash :: char where
  "fslash = CHR ''/''"

definition isSep :: "char \<Rightarrow> bool" where
  "isSep c \<longleftrightarrow> c = bslash \<or> c = fslash"

text \<open>
  The regular expression carries the flag \<^verbatim>\<open>i\<close>. Its literal part consists of ASCII
  characters only, and without the \<^verbatim>\<open>u\<close> flag a code unit above 127 never canonicalises
  to an ASCII one, so the comparison is equality after folding \<^verbatim>\<open>A-Z\<close> onto \<^verbatim>\<open>a-z\<close>.
\<close>

definition toLowerAscii :: "char \<Rightarrow> char" where
  "toLowerAscii c =
     (let n = (of_char c :: nat) in if 65 \<le> n \<and> n \<le> 90 then char_of (n + 32) else c)"

text \<open>A literal of the pattern, matched case-insensitively at the start of \<open>s\<close>:
  the matched text and the rest.\<close>

definition matchLit :: "string \<Rightarrow> string \<Rightarrow> (string \<times> string) option" where
  "matchLit lit s =
     (if length lit \<le> length s \<and>
         map toLowerAscii (take (length lit) s) = map toLowerAscii lit
      then Some (take (length lit) s, drop (length lit) s) else None)"

text \<open>\<^verbatim>\<open>[\\/]([^\\/]+)\<close>: one separator, then the longest non-empty run of
  non-separators (the group is greedy and nothing follows it). The result is the matched
  text and the captured group.\<close>

definition matchDistro :: "string \<Rightarrow> (string \<times> string) option" where
  "matchDistro s =
     (case s of
        [] \<Rightarrow> None
      | c # cs \<Rightarrow>
          if isSep c
          then (let d = takeWhile (\<lambda>x. \<not> isSep x) cs
                in if d = [] then None else Some (c # d, d))
          else None)"

text \<open>One alternative of \<^verbatim>\<open>(?:wsl\$|wsl\.localhost)\<close> followed by the distro part.\<close>

definition matchHost :: "string \<Rightarrow> string \<Rightarrow> (string \<times> string) option" where
  "matchHost lit r =
     (case matchLit lit r of
        None \<Rightarrow> None
      | Some (h, r') \<Rightarrow>
          (case matchDistro r' of
             None \<Rightarrow> None
           | Some (m, d) \<Rightarrow> Some (h @ m, d)))"

text \<open>
  \<^verbatim>\<open>const WSL_UNC_RE = /^[\\/]{2}(?:wsl\$|wsl\.localhost)[\\/]([^\\/]+)/i\<close>.
  A match is the pair of \<^verbatim>\<open>m[0]\<close> (the matched text) and \<^verbatim>\<open>m[1]\<close> (the distro).
  The alternatives are tried in the order of the pattern.
\<close>

definition WSL_UNC_RE :: "string \<Rightarrow> (string \<times> string) option" where
  "WSL_UNC_RE p =
     (case p of
        c1 # c2 # r \<Rightarrow>
          if isSep c1 \<and> isSep c2
          then (case (case matchHost ''wsl$'' r of
                        Some m \<Rightarrow> Some m
                      | None \<Rightarrow> matchHost ''wsl.localhost'' r) of
                  None \<Rightarrow> None
                | Some (m, d) \<Rightarrow> Some (c1 # c2 # m, d))
          else None
      | _ \<Rightarrow> None)"

definition isWslPath :: "string \<Rightarrow> bool" where
  "isWslPath p \<longleftrightarrow> WSL_UNC_RE p \<noteq> None"

definition getWslDistro :: "string \<Rightarrow> string option" where
  "getWslDistro p = (case WSL_UNC_RE p of None \<Rightarrow> None | Some (m0, m1) \<Rightarrow> Some m1)"

datatype error = NotAWslUncPath string

text \<open>\<^verbatim>\<open>uncPath.slice(m[0].length).replace(/\\/g, '/') || '/'\<close>; a path that does not
  match throws.\<close>

definition toWslPosixPath :: "string \<Rightarrow> error + string" where
  "toWslPosixPath uncPath =
     (case WSL_UNC_RE uncPath of
        None \<Rightarrow> Inl (NotAWslUncPath uncPath)
      | Some (m0, m1) \<Rightarrow>
          (let afterDistro = drop (length m0) uncPath;
               posix = map (\<lambda>c. if c = bslash then fslash else c) afterDistro
           in Inr (if posix = [] then [fslash] else posix)))"

definition toWindowsUncPath :: "string \<Rightarrow> string \<Rightarrow> string" where
  "toWindowsUncPath distro posixPath =
     (let winSegments = map (\<lambda>c. if c = fslash then bslash else c) posixPath
      in [bslash, bslash] @ ''wsl$'' @ [bslash] @ distro @ winSegments)"


subsection \<open>The path classes of the claims\<close>

text \<open>The classes of paths that must not be taken for WSL paths. They are stated on the
  shape of the string alone.\<close>

definition isAsciiLetter :: "char \<Rightarrow> bool" where
  "isAsciiLetter c \<longleftrightarrow>
     (let n = (of_char c :: nat) in (65 \<le> n \<and> n \<le> 90) \<or> (97 \<le> n \<and> n \<le> 122))"

text \<open>A drive-letter path: \<^verbatim>\<open>C:...\<close>.\<close>

definition isDrivePath :: "string \<Rightarrow> bool" where
  "isDrivePath p \<longleftrightarrow>
     (case p of c # k # _ \<Rightarrow> isAsciiLetter c \<and> k = CHR '':'' | _ \<Rightarrow> False)"

text \<open>A POSIX path with a single leading slash, such as \<^verbatim>\<open>/home/user\<close>. A text that
  starts with two separators is the forward-slash spelling of a UNC path, which the
  resolver has to accept when the host is a WSL one.\<close>

definition isPosixPath :: "string \<Rightarrow> bool" where
  "isPosixPath p \<longleftrightarrow>
     (case p of
        [] \<Rightarrow> False
      | c # cs \<Rightarrow> c = fslash \<and> (case cs of [] \<Rightarrow> True | k # _ \<Rightarrow> \<not> isSep k))"

text \<open>The host component of a UNC path: what stands between the two leading separators
  and the next separator.\<close>

definition uncHost :: "string \<Rightarrow> string option" where
  "uncHost p =
     (case p of
        c1 # c2 # r \<Rightarrow>
          if isSep c1 \<and> isSep c2 then Some (takeWhile (\<lambda>x. \<not> isSep x) r) else None
      | _ \<Rightarrow> None)"

text \<open>An ordinary UNC share: a UNC path whose host is neither \<^verbatim>\<open>wsl$\<close> nor
  \<^verbatim>\<open>wsl.localhost\<close> in any letter case.\<close>

definition isPlainUncShare :: "string \<Rightarrow> bool" where
  "isPlainUncShare p \<longleftrightarrow>
     (case uncHost p of
        None \<Rightarrow> False
      | Some h \<Rightarrow> map toLowerAscii h \<noteq> ''wsl$'' \<and> map toLowerAscii h \<noteq> ''wsl.localhost'')"

text \<open>The canonical backslash spelling \<^verbatim>\<open>\\<host>\<distro><rest>\<close> of a WSL path, for
  a host \<open>lit\<close> that is \<^verbatim>\<open>wsl$\<close> or \<^verbatim>\<open>wsl.localhost\<close>.\<close>

definition canonicalUnc :: "string \<Rightarrow> string \<Rightarrow> string \<Rightarrow> string" where
  "canonicalUnc lit d r =
     [bslash, bslash] @ lit @ [bslash] @ d @ map (\<lambda>c. if c = fslash then bslash else c) r"

text \<open>The parts of a WSL UNC path: a host that is \<^verbatim>\<open>wsl$\<close> or \<^verbatim>\<open>wsl.localhost\<close> in any
  letter case, a distro name (not empty, no separator in it), and a rest that is empty or
  starts with a separator.\<close>

definition isWslHost :: "string \<Rightarrow> bool" where
  "isWslHost h \<longleftrightarrow> map toLowerAscii h = ''wsl$'' \<or> map toLowerAscii h = ''wsl.localhost''"

definition isDistroName :: "string \<Rightarrow> bool" where
  "isDistroName d \<longleftrightarrow> d \<noteq> [] \<and> list_all (\<lambda>c. \<not> isSep c) d"

definition isRest :: "string \<Rightarrow> bool" where
  "isRest r \<longleftrightarrow> (case r of [] \<Rightarrow> True | c # _ \<Rightarrow> isSep c)"

text \<open>An absolute POSIX path starts with a slash.\<close>

definition isAbsolutePosix :: "string \<Rightarrow> bool" where
  "isAbsolutePosix q \<longleftrightarrow> (case q of [] \<Rightarrow> False | c # _ \<Rightarrow> c = fslash)"

section \<open>The PTY IPC layer (services/ptyIpc.ts)\<close>

subsection \<open>Data\<close>

text \<open>
  Session ids, provider ids and run-timer keys are strings. A process handle stands for
  the identity of an \<^verbatim>\<open>IPty\<close> object and a \<open>WebContentsId\<close> for the identity of a
  \<^verbatim>\<open>WebContents\<close>: the source compares both by reference (\<^verbatim>\<open>getPty(id) !== proc\<close>,
  \<^verbatim>\<open>owner === wc\<close>).
\<close>

type_synonym PtyId = string
type_synonym ProviderId = string
type_synonym Handle = nat
type_synonym WebContentsId = nat

datatype FinishCause = process_exit | app_quit | owner_destroyed | manual_kill

datatype Outcome = outcome_ok | outcome_error

text \<open>The calls of \<^verbatim>\<open>telemetry.capture\<close>, in order. A run-finish event carries the
  provider, the outcome and \<^verbatim>\<open>duration_ms\<close> (\<open>None\<close> for \<^verbatim>\<open>undefined\<close>).\<close>

datatype TelemetryEvent =
    agent_run_start ProviderId
  | agent_run_finish ProviderId Outcome "nat option"
  | agent_prompt_sent ProviderId

text \<open>What is pushed to a renderer: \<^verbatim>\<open>pty:data:<id>\<close> with a chunk, \<^verbatim>\<open>pty:exit:<id>\<close>
  with \<^verbatim>\<open>{exitCode, signal}\<close>, \<^verbatim>\<open>pty:started\<close> with \<^verbatim>\<open>{id}\<close>. An exit code or a signal
  that is \<^verbatim>\<open>null\<close> or \<^verbatim>\<open>undefined\<close> is \<open>None\<close>.\<close>

datatype Payload =
    DataChunk string
  | ExitInfo "int option" "int option"
  | StartedInfo PtyId

record Notification =
  title :: string
  body :: string
  silent :: bool

text \<open>The exit callbacks the module attaches to a process, one constructor for each
  \<^verbatim>\<open>proc.onExit\<close> of the source: in \<^verbatim>\<open>pty:start\<close> (local), in \<^verbatim>\<open>pty:startDirect\<close>
  (local, with its captured \<^verbatim>\<open>usedFallback\<close>), in the respawn callback, and in the remote
  branches of \<^verbatim>\<open>pty:start\<close> and \<^verbatim>\<open>pty:startDirect\<close>.\<close>

datatype ExitHandler =
    StartExit PtyId
  | StartDirectExit PtyId bool
  | RespawnedShellExit PtyId
  | SshExit PtyId
  | SshDirectExit PtyId

text \<open>
  The module's state: its top-level maps and sets, the process table of \<^verbatim>\<open>ptyManager\<close>
  (\<open>ptys\<close>, \<open>nextHandle\<close>, \<open>exitHandlers\<close>), and what the module has done to the outside
  so far (telemetry, desktop notifications, messages to renderers, input written to
  processes, processes killed). \<open>wcDestroyedListeners\<close> holds the \<^verbatim>\<open>WebContents\<close> on which the
  clean-up for their destruction is registered.
\<close>

record State =
  owners :: "PtyId \<rightharpoonup> WebContentsId"
  listeners :: "PtyId set"
  providerPtyTimers :: "string \<rightharpoonup> nat"
  ptyProviderMap :: "PtyId \<rightharpoonup> ProviderId"
  finalizedPtys :: "PtyId set"
  isAppQuitting :: bool
  ptyDataBuffers :: "PtyId \<rightharpoonup> string"
  ptyDataTimers :: "PtyId set"
  ptys :: "PtyId \<rightharpoonup> Handle"
  nextHandle :: Handle
  exitHandlers :: "Handle \<Rightarrow> ExitHandler list"
  telemetry :: "TelemetryEvent list"
  notifications :: "Notification list"
  sent :: "(WebContentsId \<times> string \<times> Payload) list"
  written :: "(Handle \<times> string) list"
  killed :: "Handle list"
  wcDestroyedListeners :: "WebContentsId set"

text \<open>
  What the module reads from its collaborators, none of which is among the sources:
  \<^verbatim>\<open>parsePtyId\<close> of shared/ptyId (the provider id and the suffix of a session id),
  \<^verbatim>\<open>getProvider(..)?.name\<close> and \<^verbatim>\<open>PROVIDER_IDS\<close> of the provider registry, the
  notification settings, \<^verbatim>\<open>Notification.isSupported()\<close>, whether a window is focused,
  which \<^verbatim>\<open>WebContents\<close> are destroyed, the \<^verbatim>\<open>WebContents\<close> of the open windows
  (\<^verbatim>\<open>BrowserWindow.getAllWindows()\<close>), and \<^verbatim>\<open>Date.now()\<close>. They are parameters.
\<close>

record Env =
  parsePtyId :: "PtyId \<Rightarrow> (ProviderId \<times> string) option"
  getProviderName :: "ProviderId \<Rightarrow> string option"
  PROVIDER_IDS :: "ProviderId list"
  notificationsEnabled :: bool
  notificationsSound :: bool
  notificationSupported :: bool
  anyFocused :: bool
  isDestroyed :: "WebContentsId \<Rightarrow> bool"
  windows :: "WebContentsId list"
  now :: nat

subsection \<open>The process table of ptyManager\<close>

text \<open>
  Modelled from the spec: services/ptyManager.ts (\<^verbatim>\<open>startPty\<close>, \<^verbatim>\<open>getPty\<close>, \<^verbatim>\<open>writePty\<close>,
  \<^verbatim>\<open>killPty\<close>, \<^verbatim>\<open>removePtyRecord\<close>) is not among the sources. Following sections 4.3 and 6
  of the specification and the test doubles of ClaudeConfigService.test.ts: the table maps
  a session id to at most one handle; a successful start stores a handle that was never
  used before under the id; \<^verbatim>\<open>kill\<close> terminates the process, if there is one, and removes
  the record; \<^verbatim>\<open>removeRecord\<close> removes the record; input written to an id goes to the
  handle the table holds for it.
\<close>

definition getPty :: "PtyId \<Rightarrow> State \<Rightarrow> Handle option" where
  "getPty ptyId s = ptys s ptyId"

definition removePtyRecord :: "PtyId \<Rightarrow> State \<Rightarrow> State" where
  "removePtyRecord ptyId s = s\<lparr>ptys := (ptys s)(ptyId := None)\<rparr>"

definition killPty :: "PtyId \<Rightarrow> State \<Rightarrow> State" where
  "killPty ptyId s =
     (case ptys s ptyId of
        None \<Rightarrow> s
      | Some h \<Rightarrow> s\<lparr>ptys := (ptys s)(ptyId := None), killed := killed s @ [h]\<rparr>)"

definition writePty :: "PtyId \<Rightarrow> string \<Rightarrow> State \<Rightarrow> State" where
  "writePty ptyId data s =
     (case ptys s ptyId of
        None \<Rightarrow> s
      | Some h \<Rightarrow> s\<lparr>written := written s @ [(h, data)]\<rparr>)"

text \<open>Whether a start succeeds is decided outside: it may return a process, return no
  process, or throw.\<close>

datatype Spawn = spawn_ok | spawn_null | spawn_throws

definition startPty :: "Spawn \<Rightarrow> PtyId \<Rightarrow> State \<Rightarrow> Handle option \<times> State" where
  "startPty sp ptyId s =
     (if sp = spawn_ok
      then (Some (nextHandle s),
            s\<lparr>ptys := (ptys s)(ptyId \<mapsto> nextHandle s), nextHandle := Suc (nextHandle s)\<rparr>)
      else (None, s))"

subsection \<open>Sending to the owner and the output buffer\<close>

text \<open>\<^verbatim>\<open>safeSendToOwner\<close>: nothing is sent without an owner or to a destroyed one. The
  boolean it returns is used by no caller.\<close>

definition safeSendToOwner :: "Env \<Rightarrow> PtyId \<Rightarrow> string \<Rightarrow> Payload \<Rightarrow> State \<Rightarrow> State" where
  "safeSendToOwner env ptyId channel payload s =
     (case owners s ptyId of
        None \<Rightarrow> s
      | Some wc \<Rightarrow>
          if isDestroyed env wc then s
          else s\<lparr>sent := sent s @ [(wc, channel, payload)]\<rparr>)"

text \<open>\<^verbatim>\<open>flushPtyData\<close>: \<^verbatim>\<open>if (!buf) return\<close> also leaves an empty buffer alone.\<close>

definition flushPtyData :: "Env \<Rightarrow> PtyId \<Rightarrow> State \<Rightarrow> State" where
  "flushPtyData env ptyId s =
     (case ptyDataBuffers s ptyId of
        None \<Rightarrow> s
      | Some buf \<Rightarrow>
          if buf = [] then s
          else safeSendToOwner env ptyId (''pty:data:'' @ ptyId) (DataChunk buf)
                 (s\<lparr>ptyDataBuffers := (ptyDataBuffers s)(ptyId := None)\<rparr>))"

definition clearPtyData :: "PtyId \<Rightarrow> State \<Rightarrow> State" where
  "clearPtyData ptyId s =
     s\<lparr>ptyDataTimers := ptyDataTimers s - {ptyId},
       ptyDataBuffers := (ptyDataBuffers s)(ptyId := None)\<rparr>"

subsection \<open>Run tracking\<close>

definition parseProviderPty :: "Env \<Rightarrow> PtyId \<Rightarrow> (ProviderId \<times> string) option" where
  "parseProviderPty env ptyId = parsePtyId env ptyId"

definition providerRunKey :: "ProviderId \<Rightarrow> string \<Rightarrow> string" where
  "providerRunKey providerId taskId = providerId @ '':'' @ taskId"

text \<open>The last steps of each branch of \<^verbatim>\<open>maybeMarkProviderStart\<close>: nothing happens when
  the key has a timer.\<close>

definition startTimer :: "Env \<Rightarrow> string \<Rightarrow> ProviderId \<Rightarrow> State \<Rightarrow> State" where
  "startTimer env key provider s =
     (if providerPtyTimers s key \<noteq> None then s
      else s\<lparr>providerPtyTimers := (providerPtyTimers s)(key \<mapsto> now env),
             telemetry := telemetry s @ [agent_run_start provider]\<rparr>)"

text \<open>A provider id that is \<^verbatim>\<open>undefined\<close> is \<open>None\<close>; the empty string is falsy as well.\<close>

definition maybeMarkProviderStart :: "Env \<Rightarrow> PtyId \<Rightarrow> ProviderId option \<Rightarrow> State \<Rightarrow> State" where
  "maybeMarkProviderStart env ptyId providerId s =
     (let s1 = s\<lparr>finalizedPtys := finalizedPtys s - {ptyId}\<rparr> in
      case (case providerId of
              None \<Rightarrow> None
            | Some p \<Rightarrow> if p \<noteq> [] \<and> p \<in> set (PROVIDER_IDS env) then Some p else None) of
        Some p \<Rightarrow>
          startTimer env (p @ '':'' @ ptyId) p (s1\<lparr>ptyProviderMap := (ptyProviderMap s1)(ptyId \<mapsto> p)\<rparr>)
      | None \<Rightarrow>
          (case (case ptyProviderMap s1 ptyId of
                   None \<Rightarrow> None
                 | Some sp \<Rightarrow> if sp \<noteq> [] then Some sp else None) of
             Some sp \<Rightarrow> startTimer env (sp @ '':'' @ ptyId) sp s1
           | None \<Rightarrow>
               (case parseProviderPty env ptyId of
                  None \<Rightarrow> s1
                | Some (p, taskId) \<Rightarrow> startTimer env (providerRunKey p taskId) p s1)))"

text \<open>\<^verbatim>\<open>showCompletionNotification\<close>.\<close>

definition showCompletionNotification :: "Env \<Rightarrow> string \<Rightarrow> State \<Rightarrow> State" where
  "showCompletionNotification env providerName s =
     (if \<not> notificationsEnabled env then s
      else if \<not> notificationSupported env then s
      else if anyFocused env then s
      else s\<lparr>notifications := notifications s @
               [\<lparr>title = providerName @ '' Task Complete'',
                 body = ''Your agent has finished working'',
                 silent = (\<not> notificationsSound env)\<rparr>]\<rparr>)"

text \<open>The provider and the timer key \<^verbatim>\<open>maybeMarkProviderFinish\<close> works with: the stored
  provider of the id if there is one, what the id parses to otherwise, and nothing when the
  id does not parse.\<close>

definition finishKey :: "Env \<Rightarrow> PtyId \<Rightarrow> State \<Rightarrow> (ProviderId \<times> string) option" where
  "finishKey env ptyId s =
     (case (case ptyProviderMap s ptyId of
              None \<Rightarrow> None
            | Some sp \<Rightarrow> if sp \<noteq> [] then Some sp else None) of
        Some sp \<Rightarrow> Some (sp, sp @ '':'' @ ptyId)
      | None \<Rightarrow>
          (case parseProviderPty env ptyId of
             None \<Rightarrow> None
           | Some (p, taskId) \<Rightarrow> Some (p, providerRunKey p taskId)))"

text \<open>
  \<^verbatim>\<open>maybeMarkProviderFinish(id, exitCode, signal, cause)\<close>. An exit code that is not a
  number is \<open>None\<close>. \<^verbatim>\<open>started ? Math.max(0, Date.now() - started) : undefined\<close>: a start
  time of 0 is falsy, and the subtraction on \<open>nat\<close> stops at 0 as \<^verbatim>\<open>Math.max\<close> does.
\<close>

definition maybeMarkProviderFinish ::
  "Env \<Rightarrow> PtyId \<Rightarrow> int option \<Rightarrow> int option \<Rightarrow> FinishCause \<Rightarrow> State \<Rightarrow> State" where
  "maybeMarkProviderFinish env ptyId exitCode signal cause s =
     (if ptyId \<in> finalizedPtys s then s
      else
        let s1 = s\<lparr>finalizedPtys := insert ptyId (finalizedPtys s)\<rparr> in
        case finishKey env ptyId s1 of
          None \<Rightarrow> s1
        | Some (providerId, key) \<Rightarrow>
            let started = providerPtyTimers s1 key;
                s2 = s1\<lparr>providerPtyTimers := (providerPtyTimers s1)(key := None),
                        ptyProviderMap := (ptyProviderMap s1)(ptyId := None)\<rparr>
            in case exitCode of
                 None \<Rightarrow> s2
               | Some code \<Rightarrow>
                   let duration = (case started of
                                     None \<Rightarrow> None
                                   | Some t \<Rightarrow> if t = 0 then None else Some (now env - t));
                       wasSignaled = (signal \<noteq> None);
                       outcome = (if code \<noteq> 0 \<and> \<not> wasSignaled then outcome_error
                                  else outcome_ok);
                       s3 = s2\<lparr>telemetry := telemetry s2 @
                                  [agent_run_finish providerId outcome duration]\<rparr>
                   in if cause = process_exit \<and> code = 0
                      then showCompletionNotification env
                             (case getProviderName env providerId of
                                Some n \<Rightarrow> n
                              | None \<Rightarrow> providerId) s3
                      else s3)"

subsection \<open>Observing a state\<close>

text \<open>The run-finish accounting events among the telemetry events.\<close>

fun isRunFinish :: "TelemetryEvent \<Rightarrow> bool" where
  "isRunFinish (agent_run_finish p outcome duration) = True"
| "isRunFinish _ = False"

definition runFinishEvents :: "State \<Rightarrow> TelemetryEvent list" where
  "runFinishEvents s = filter isRunFinish (telemetry s)"

text \<open>The session registry of an id: its process handle, its owner binding and its
  listener flag.\<close>

definition registry :: "PtyId \<Rightarrow> State \<Rightarrow> Handle option \<times> WebContentsId option \<times> bool" where
  "registry ptyId s = (ptys s ptyId, owners s ptyId, ptyId \<in> listeners s)"

text \<open>The state of the module when it is loaded: every map and set is empty.\<close>

definition initialState :: State where
  "initialState =
     \<lparr>owners = Map.empty, listeners = {}, providerPtyTimers = Map.empty,
      ptyProviderMap = Map.empty, finalizedPtys = {}, isAppQuitting = False,
      ptyDataBuffers = Map.empty, ptyDataTimers = {}, ptys = Map.empty, nextHandle = 0,
      exitHandlers = (\<lambda>h. []), telemetry = [], notifications = [], sent = [],
      written = [], killed = [], wcDestroyedListeners = {}\<rparr>"

text \<open>An environment for concrete runs, after the doubles of ClaudeConfigService.test.ts:
  the providers \<^verbatim>\<open>codex\<close> and \<^verbatim>\<open>claude\<close>, notifications enabled with sound and supported,
  one window (its \<^verbatim>\<open>WebContents\<close> is 9), not focused, no \<^verbatim>\<open>WebContents\<close> destroyed, the time
  1000. The one session id it parses is \<^verbatim>\<open>codex-main-task-1\<close>.\<close>

definition testEnv :: Env where
  "testEnv =
     \<lparr>parsePtyId = (\<lambda>ptyId. if ptyId = ''codex-main-task-1''
                              then Some (''codex'', ''task-1'') else None),
      getProviderName = (\<lambda>p. Some (if p = ''codex'' then ''Codex'' else ''Claude Code'')),
      PROVIDER_IDS = [''codex'', ''claude''],
      notificationsEnabled = True, notificationsSound = True, notificationSupported = True,
      anyFocused = False, isDestroyed = (\<lambda>wc. False), windows = [9], now = 1000\<rparr>"

text \<open>The session id of the concrete runs.\<close>

definition exampleId :: PtyId where
  "exampleId = ''codex-main-task-1''"

subsection \<open>Exit callbacks\<close>

text \<open>
  The callback \<^verbatim>\<open>pty:start\<close> attaches to a local process \<open>proc\<close>: after the buffer is
  flushed, a process that is no longer the one stored for the id returns at once.
\<close>

definition startExit ::
  "Handle \<Rightarrow> Env \<Rightarrow> PtyId \<Rightarrow> int option \<Rightarrow> int option \<Rightarrow> State \<Rightarrow> State" where
  "startExit proc env ptyId exitCode signal s =
     (let s1 = clearPtyData ptyId (flushPtyData env ptyId s) in
      if getPty ptyId s1 \<noteq> Some proc then s1
      else
        let s2 = safeSendToOwner env ptyId (''pty:exit:'' @ ptyId) (ExitInfo exitCode signal) s1;
            s3 = maybeMarkProviderFinish env ptyId exitCode signal
                   (if isAppQuitting s2 then app_quit else process_exit) s2;
            s4 = s3\<lparr>owners := (owners s3)(ptyId := None)\<rparr>;
            s5 = s4\<lparr>listeners := listeners s4 - {ptyId}\<rparr>
        in removePtyRecord ptyId s5)"

text \<open>
  The callback \<^verbatim>\<open>pty:startDirect\<close> attaches (local branch). It finalizes first; then
  \<^verbatim>\<open>if (current && current !== proc) return\<close>. The owner is removed only when the process
  came from the shell fallback.
\<close>

definition startDirectExit ::
  "Handle \<Rightarrow> bool \<Rightarrow> Env \<Rightarrow> PtyId \<Rightarrow> int option \<Rightarrow> int option \<Rightarrow> State \<Rightarrow> State" where
  "startDirectExit proc usedFallback env ptyId exitCode signal s =
     (let s1 = clearPtyData ptyId (flushPtyData env ptyId s);
          s2 = maybeMarkProviderFinish env ptyId exitCode signal
                 (if isAppQuitting s1 then app_quit else process_exit) s1;
          current = getPty ptyId s2
      in if current \<noteq> None \<and> current \<noteq> Some proc then s2
         else
           let s3 = safeSendToOwner env ptyId (''pty:exit:'' @ ptyId) (ExitInfo exitCode signal) s2;
               s4 = (if usedFallback then s3\<lparr>owners := (owners s3)(ptyId := None)\<rparr> else s3);
               s5 = s4\<lparr>listeners := listeners s4 - {ptyId}\<rparr>
           in removePtyRecord ptyId s5)"

text \<open>The callback the respawn coordinator attaches to the replacement shell; the remote
  branch of \<^verbatim>\<open>pty:start\<close> attaches the same code to an SSH process.\<close>

definition respawnedShellExit ::
  "Env \<Rightarrow> PtyId \<Rightarrow> int option \<Rightarrow> int option \<Rightarrow> State \<Rightarrow> State" where
  "respawnedShellExit env ptyId exitCode signal s =
     (let s1 = clearPtyData ptyId (flushPtyData env ptyId s);
          s2 = safeSendToOwner env ptyId (''pty:exit:'' @ ptyId) (ExitInfo exitCode signal) s1;
          s3 = s2\<lparr>owners := (owners s2)(ptyId := None)\<rparr>;
          s4 = s3\<lparr>listeners := listeners s3 - {ptyId}\<rparr>
      in removePtyRecord ptyId s4)"

definition sshExit :: "Env \<Rightarrow> PtyId \<Rightarrow> int option \<Rightarrow> int option \<Rightarrow> State \<Rightarrow> State" where
  "sshExit env ptyId exitCode signal s = respawnedShellExit env ptyId exitCode signal s"

text \<open>The callback of the remote branch of \<^verbatim>\<open>pty:startDirect\<close>.\<close>

definition sshDirectExit :: "Env \<Rightarrow> PtyId \<Rightarrow> int option \<Rightarrow> int option \<Rightarrow> State \<Rightarrow> State" where
  "sshDirectExit env ptyId exitCode signal s =
     (let s1 = clearPtyData ptyId (flushPtyData env ptyId s);
          s2 = safeSendToOwner env ptyId (''pty:exit:'' @ ptyId) (ExitInfo exitCode signal) s1;
          s3 = maybeMarkProviderFinish env ptyId exitCode signal process_exit s2;
          s4 = s3\<lparr>owners := (owners s3)(ptyId := None)\<rparr>;
          s5 = s4\<lparr>listeners := listeners s4 - {ptyId}\<rparr>
      in removePtyRecord ptyId s5)"

fun runExitHandler ::
  "Env \<Rightarrow> Handle \<Rightarrow> int option \<Rightarrow> int option \<Rightarrow> State \<Rightarrow> ExitHandler \<Rightarrow> State" where
  "runExitHandler env proc exitCode signal s (StartExit ptyId) =
     startExit proc env ptyId exitCode signal s"
| "runExitHandler env proc exitCode signal s (StartDirectExit ptyId usedFallback) =
     startDirectExit proc usedFallback env ptyId exitCode signal s"
| "runExitHandler env proc exitCode signal s (RespawnedShellExit ptyId) =
     respawnedShellExit env ptyId exitCode signal s"
| "runExitHandler env proc exitCode signal s (SshExit ptyId) =
     sshExit env ptyId exitCode signal s"
| "runExitHandler env proc exitCode signal s (SshDirectExit ptyId) =
     sshDirectExit env ptyId exitCode signal s"

text \<open>\<^verbatim>\<open>proc.onExit(cb)\<close> adds a callback to the process; the exit of the process runs its
  callbacks in the order in which they were added.\<close>

definition onExit :: "Handle \<Rightarrow> ExitHandler \<Rightarrow> State \<Rightarrow> State" where
  "onExit proc cb s = s\<lparr>exitHandlers := (exitHandlers s)(proc := exitHandlers s proc @ [cb])\<rparr>"

definition emitExit :: "Env \<Rightarrow> Handle \<Rightarrow> int option \<Rightarrow> int option \<Rightarrow> State \<Rightarrow> State" where
  "emitExit env proc exitCode signal s =
     foldl (runExitHandler env proc exitCode signal) s (exitHandlers s proc)"

subsection \<open>The respawn coordinator\<close>

text \<open>
  The callback given to \<^verbatim>\<open>setOnDirectCliExit\<close> is an \<^verbatim>\<open>async\<close> function with one
  \<^verbatim>\<open>await\<close>, on \<^verbatim>\<open>startPty\<close>. Its first part runs up to there: without an owner it returns,
  otherwise it starts the shell. What it carries over the \<^verbatim>\<open>await\<close> is the owner it read
  and the process it got, if any.
\<close>

definition onDirectCliExit_spawn ::
  "Spawn \<Rightarrow> PtyId \<Rightarrow> State \<Rightarrow> (WebContentsId \<times> Handle option) option \<times> State" where
  "onDirectCliExit_spawn sp ptyId s =
     (case owners s ptyId of
        None \<Rightarrow> (None, s)
      | Some wc \<Rightarrow> (case startPty sp ptyId s of (proc, s1) \<Rightarrow> (Some (wc, proc), s1)))"

text \<open>
  The second part: a start that gave no process, or threw, ends in \<^verbatim>\<open>killPty(id)\<close>.
  Otherwise the listener flag is cleared, the callbacks are attached to the new process,
  the flag is set again, and \<^verbatim>\<open>pty:started\<close> goes to the owner read before.
\<close>

definition onDirectCliExit_resume ::
  "Env \<Rightarrow> PtyId \<Rightarrow> (WebContentsId \<times> Handle option) option \<Rightarrow> State \<Rightarrow> State" where
  "onDirectCliExit_resume env ptyId pending s =
     (case pending of
        None \<Rightarrow> s
      | Some (wc, None) \<Rightarrow> killPty ptyId s
      | Some (wc, Some proc) \<Rightarrow>
          let s1 = s\<lparr>listeners := listeners s - {ptyId}\<rparr>;
              s2 = (if ptyId \<notin> listeners s1
                    then (let s' = onExit proc (RespawnedShellExit ptyId) s1
                          in s'\<lparr>listeners := insert ptyId (listeners s')\<rparr>)
                    else s1)
          in if \<not> isDestroyed env wc
             then s2\<lparr>sent := sent s2 @ [(wc, ''pty:started'', StartedInfo ptyId)]\<rparr>
             else s2)"

text \<open>The whole callback, run without anything in between.\<close>

definition onDirectCliExit :: "Spawn \<Rightarrow> Env \<Rightarrow> PtyId \<Rightarrow> State \<Rightarrow> State" where
  "onDirectCliExit sp env ptyId s =
     (case onDirectCliExit_spawn sp ptyId s of
        (pending, s1) \<Rightarrow> onDirectCliExit_resume env ptyId pending s1)"

text \<open>
  Modelled from the spec: how \<^verbatim>\<open>ptyManager\<close> calls the callback when a direct CLI process
  exits is not among the sources. Following section 4.6 of the specification and the
  double \<^verbatim>\<open>startDirectPtyMock\<close> (``direct CLI exit triggers shell respawn callback
  first''): the callback is called first and runs up to its \<^verbatim>\<open>await\<close>, then the exit
  callbacks of the process run, then the callback resumes.
\<close>

definition directCliExit ::
  "Spawn \<Rightarrow> Env \<Rightarrow> Handle \<Rightarrow> PtyId \<Rightarrow> int option \<Rightarrow> int option \<Rightarrow> State \<Rightarrow> State" where
  "directCliExit sp env proc ptyId exitCode signal s =
     (case onDirectCliExit_spawn sp ptyId s of
        (pending, s1) \<Rightarrow>
          onDirectCliExit_resume env ptyId pending (emitExit env proc exitCode signal s1))"

subsection \<open>Requests of the renderer\<close>

text \<open>\<^verbatim>\<open>pty:kill\<close>.\<close>

definition ptyKill :: "Env \<Rightarrow> PtyId \<Rightarrow> State \<Rightarrow> State" where
  "ptyKill env ptyId s =
     (let s1 = maybeMarkProviderFinish env ptyId None None manual_kill s;
          s2 = killPty ptyId s1;
          s3 = s2\<lparr>owners := (owners s2)(ptyId := None)\<rparr>
      in s3\<lparr>listeners := listeners s3 - {ptyId}\<rparr>)"

text \<open>\<^verbatim>\<open>pty:input\<close>: the data goes to the process of the id; a lone carriage return or
  line feed sent to an agent terminal counts as a prompt.\<close>

definition ptyInput :: "Env \<Rightarrow> PtyId \<Rightarrow> string \<Rightarrow> State \<Rightarrow> State" where
  "ptyInput env ptyId data s =
     (let s1 = writePty ptyId data s in
      if data = [CHR 0x0D] \<or> data = [CHR 0x0A]
      then (case (case ptyProviderMap s1 ptyId of
                    None \<Rightarrow> None
                  | Some sp \<Rightarrow> if sp \<noteq> [] then Some sp else None) of
              Some p \<Rightarrow> s1\<lparr>telemetry := telemetry s1 @ [agent_prompt_sent p]\<rparr>
            | None \<Rightarrow>
                (case parseProviderPty env ptyId of
                   None \<Rightarrow> s1
                 | Some (p, taskId) \<Rightarrow>
                     if p \<noteq> [] then s1\<lparr>telemetry := telemetry s1 @ [agent_prompt_sent p]\<rparr>
                     else s1))
      else s1)"

text \<open>
  Modelled from the spec: \<^verbatim>\<open>startDirectPty\<close> of services/ptyManager.ts is not among the
  sources. Following section 6 of the specification and its double in the tests, it
  returns a process, stored under the id like one of \<^verbatim>\<open>startPty\<close>, or no process when a
  direct spawn is not possible.
\<close>

definition startDirectPty :: "Spawn \<Rightarrow> PtyId \<Rightarrow> State \<Rightarrow> Handle option \<times> State" where
  "startDirectPty sp ptyId s = startPty sp ptyId s"

text \<open>\<^verbatim>\<open>pty:started\<close> goes to the \<^verbatim>\<open>WebContents\<close> of every window.\<close>

definition broadcastStarted :: "Env \<Rightarrow> PtyId \<Rightarrow> State \<Rightarrow> State" where
  "broadcastStarted env ptyId s =
     s\<lparr>sent := sent s @ map (\<lambda>w. (w, ''pty:started'', StartedInfo ptyId)) (windows env)\<rparr>"

text \<open>
  The end of the local branch of \<^verbatim>\<open>pty:startDirect\<close>, with the process \<open>proc\<close> the spawn
  gave (\<open>None\<close> when the shell spawn of the fallback returned no process): the sender
  becomes the owner; unless the listener flag is set the callbacks are attached, which
  throws on a missing process and ends the request with \<^verbatim>\<open>{ok: false}\<close>, and the flag is
  set; the clean-up on destruction of the sender is registered, the run is marked as
  started and \<^verbatim>\<open>pty:started\<close> is broadcast.
\<close>

definition startDirectAttach ::
  "Env \<Rightarrow> WebContentsId \<Rightarrow> PtyId \<Rightarrow> ProviderId \<Rightarrow> Handle option \<Rightarrow> bool \<Rightarrow> State
     \<Rightarrow> bool \<times> State" where
  "startDirectAttach env wc ptyId providerId proc usedFallback s =
     (let s1 = s\<lparr>owners := (owners s)(ptyId \<mapsto> wc)\<rparr>
      in if ptyId \<notin> listeners s1 \<and> proc = None then (False, s1)
         else
           let s2 = (case proc of
                       None \<Rightarrow> s1
                     | Some p \<Rightarrow>
                         if ptyId \<notin> listeners s1
                         then (let s' = onExit p (StartDirectExit ptyId usedFallback) s1
                               in s'\<lparr>listeners := insert ptyId (listeners s')\<rparr>)
                         else s1);
               s3 = s2\<lparr>wcDestroyedListeners := insert wc (wcDestroyedListeners s2)\<rparr>;
               s4 = maybeMarkProviderStart env ptyId (Some providerId) s3
           in (True, broadcastStarted env ptyId s4))"

text \<open>
  \<^verbatim>\<open>pty:startDirect\<close> without \<^verbatim>\<open>remote\<close>, for the sender \<open>wc\<close>. Decided outside and given
  as arguments: whether a shell setup is configured for the working directory, what the
  direct spawn gives, whether the provider has a \<^verbatim>\<open>cli\<close>, and what the shell spawn of the
  fallback gives. The result is \<^verbatim>\<open>ok\<close> and the new state; a spawn that throws ends the
  request with \<^verbatim>\<open>{ok: false}\<close> before the owner is bound. A process that exists for the id
  is reused.
\<close>

definition ptyStartDirect ::
  "Env \<Rightarrow> WebContentsId \<Rightarrow> PtyId \<Rightarrow> ProviderId \<Rightarrow> bool \<Rightarrow> Spawn \<Rightarrow> bool \<Rightarrow> Spawn \<Rightarrow> State
     \<Rightarrow> bool \<times> State" where
  "ptyStartDirect env wc ptyId providerId shellSetup direct providerCli fallback s =
     (case getPty ptyId s of
        Some existing \<Rightarrow>
          (True, maybeMarkProviderStart env ptyId (Some providerId)
                   (s\<lparr>owners := (owners s)(ptyId \<mapsto> wc)\<rparr>))
      | None \<Rightarrow>
          if \<not> shellSetup \<and> direct = spawn_throws then (False, s)
          else
            (case (if shellSetup then (None, s) else startDirectPty direct ptyId s) of
               (Some directProc, s1) \<Rightarrow>
                 startDirectAttach env wc ptyId providerId (Some directProc) False s1
             | (None, s1) \<Rightarrow>
                 if \<not> providerCli then (False, s1)
                 else if fallback = spawn_throws then (False, s1)
                 else (case startPty fallback ptyId s1 of
                         (proc, s2) \<Rightarrow>
                           startDirectAttach env wc ptyId providerId proc True s2)))"

text \<open>A direct CLI session: what \<^verbatim>\<open>pty:startDirect\<close> for the provider \<^verbatim>\<open>codex\<close> makes of the
  initial state at time 500 when the direct spawn succeeds.\<close>

definition directSession :: "PtyId \<Rightarrow> WebContentsId \<Rightarrow> State" where
  "directSession ptyId wc =
     snd (ptyStartDirect (testEnv\<lparr>now := 500\<rparr>) wc ptyId ''codex'' False spawn_ok True spawn_ok
            initialState)"

text \<open>The same session after its CLI has exited with code 130 and the shell was
  respawned: the respawned shell is process 1.\<close>

definition respawnedSession :: State where
  "respawnedSession =
     directCliExit spawn_ok testEnv 0 exampleId (Some 130) None (directSession exampleId 7)"

text \<open>A session that is killed on request (\<^verbatim>\<open>pty:kill\<close>) and started again under its id
  (\<^verbatim>\<open>pty:startDirect\<close>, direct spawn) by the sender 7, before the exit callbacks of the
  killed process have run.\<close>

definition restartedAfterKill :: "State \<Rightarrow> State" where
  "restartedAfterKill s =
     snd (ptyStartDirect testEnv 7 exampleId ''codex'' False spawn_ok True spawn_ok
            (ptyKill testEnv exampleId s))"

section \<open>Command lines\<close>

subsection \<open>Provider arguments\<close>

text \<open>White space of JavaScript (\<^verbatim>\<open>\s\<close>, \<^verbatim>\<open>trim\<close>) among the code units below 256: tab,
  line feed, vertical tab, form feed, carriage return, space and the no-break space.\<close>

definition isSpace :: "char \<Rightarrow> bool" where
  "isSpace c \<longleftrightarrow> c \<in> set [CHR 0x09, CHR 0x0A, CHR 0x0B, CHR 0x0C, CHR 0x0D, CHR '' '', CHR 0xA0]"

definition trim :: "string \<Rightarrow> string" where
  "trim s = rev (dropWhile isSpace (rev (dropWhile isSpace s)))"

text \<open>The maximal runs of characters that are not white space, with the run in progress
  as accumulator.\<close>

fun tokens :: "string \<Rightarrow> string \<Rightarrow> string list" where
  "tokens cur [] = (if cur = [] then [] else [cur])"
| "tokens cur (c # cs) =
     (if isSpace c then (if cur = [] then tokens [] cs else cur # tokens [] cs)
      else tokens (cur @ [c]) cs)"

text \<open>
  Modelled from the spec: \<^verbatim>\<open>parseShellArgs\<close> of services/ptyManager.ts is not among the
  sources. This is its double \<^verbatim>\<open>parseShellArgsMock\<close> of ClaudeConfigService.test.ts,
  \<^verbatim>\<open>input.trim().split(/\s+/).filter(Boolean)\<close>: a flag such as \<^verbatim>\<open>resume --last\<close> gives
  one token for each word.
\<close>

definition parseShellArgs :: "string \<Rightarrow> string list" where
  "parseShellArgs input = tokens [] input"

text \<open>The options \<^verbatim>\<open>buildRemoteProviderInvocation\<close> passes to \<^verbatim>\<open>buildProviderCliArgs\<close>. A
  flag, a list or a prompt that is \<^verbatim>\<open>undefined\<close> is \<open>None\<close>; a boolean that is \<^verbatim>\<open>undefined\<close>
  is \<open>False\<close>.\<close>

record CliArgsOptions =
  resume :: bool
  resumeFlag :: "string option"
  defaultArgs :: "string list option"
  extraArgs :: "string list option"
  autoApprove :: bool
  autoApproveFlag :: "string option"
  initialPrompt :: "string option"
  initialPromptFlag :: "string option"
  useKeystrokeInjection :: bool

text \<open>A string is truthy when it is defined and not empty.\<close>

definition truthy :: "string option \<Rightarrow> bool" where
  "truthy x \<longleftrightarrow> (case x of None \<Rightarrow> False | Some v \<Rightarrow> v \<noteq> [])"

definition flagTokens :: "string option \<Rightarrow> string list" where
  "flagTokens x = (case x of None \<Rightarrow> [] | Some v \<Rightarrow> parseShellArgs v)"

text \<open>
  Modelled from the spec: \<^verbatim>\<open>buildProviderCliArgs\<close> of services/ptyManager.ts is not among
  the sources. Section 4.2 of the specification fixes its result: the resume flag (if
  resuming and supported), then the default args, then the auto-approve flag (if requested
  and supported), then the initial-prompt flag and the prompt text (only when the provider
  does not use keystroke injection). A flag is supported when the provider has one; it
  contributes its words, as the flag \<^verbatim>\<open>resume --last\<close> does in the example of section 8;
  the prompt text is one token, present when an initial prompt is given. The specification
  gives the extra args no place in the sequence. The double of the function in
  ClaudeConfigService.test.ts follows the same order; beyond the specification it passes
  the prompt only when the initial-prompt flag is defined and the prompt is not blank, and
  it trims the prompt.
\<close>

definition resumePart :: "CliArgsOptions \<Rightarrow> string list" where
  "resumePart opts =
     (if resume opts \<and> truthy (resumeFlag opts) then flagTokens (resumeFlag opts) else [])"

definition defaultPart :: "CliArgsOptions \<Rightarrow> string list" where
  "defaultPart opts = (case defaultArgs opts of None \<Rightarrow> [] | Some ds \<Rightarrow> ds)"

definition autoApprovePart :: "CliArgsOptions \<Rightarrow> string list" where
  "autoApprovePart opts =
     (if autoApprove opts \<and> truthy (autoApproveFlag opts)
      then flagTokens (autoApproveFlag opts) else [])"

definition promptPart :: "CliArgsOptions \<Rightarrow> string list" where
  "promptPart opts =
     (case initialPrompt opts of
        None \<Rightarrow> []
      | Some prompt \<Rightarrow>
          if \<not> useKeystrokeInjection opts
          then flagTokens (initialPromptFlag opts) @ [prompt]
          else [])"

definition buildProviderCliArgs :: "CliArgsOptions \<Rightarrow> string list" where
  "buildProviderCliArgs opts =
     (let args = [];
          args = args @ resumePart opts;
          args = args @ defaultPart opts;
          args = args @ autoApprovePart opts;
          args = args @ promptPart opts
      in args)"

subsection \<open>Shell quoting\<close>

definition squote :: char where
  "squote = CHR 0x27"

text \<open>\<^verbatim>\<open>replace(/'/g, "'\\''")\<close>: every single quote becomes the four characters
  quote, backslash, quote, quote. This is the replacement \<^verbatim>\<open>wslExec\<close> applies to its
  command.\<close>

definition escapeSingleQuotes :: "string \<Rightarrow> string" where
  "escapeSingleQuotes s =
     concat (map (\<lambda>c. if c = squote then [squote, bslash, squote, squote] else [c]) s)"

text \<open>
  Modelled from the spec: \<^verbatim>\<open>quoteShellArg\<close> of utils/shellEscape.ts is not among the
  sources. Section 4.2 of the specification names the technique, a single-quote wrap with
  escaped embedded single quotes, and the tests of ptyIpc expect \<^verbatim>\<open>cd '/tmp/task'\<close> and,
  quoted twice, \<^verbatim>\<open>'\''codex-remote;echo'\''\<close>: every argument is wrapped.
\<close>

definition quoteShellArg :: "string \<Rightarrow> string" where
  "quoteShellArg arg = [squote] @ escapeSingleQuotes arg @ [squote]"

text \<open>\<^verbatim>\<open>parts.join(sep)\<close>.\<close>

fun join :: "string \<Rightarrow> string list \<Rightarrow> string" where
  "join sep [] = []"
| "join sep [x] = x"
| "join sep (x # y # ys) = x @ sep @ join sep (y # ys)"

text \<open>
  \<^verbatim>\<open>buildRemoteInitKeystrokes\<close>: what is typed into a remote session. The working
  directory and the provider are optional, and an empty working directory or install
  command is falsy. The provider carries \<^verbatim>\<open>cli\<close>, \<^verbatim>\<open>cmd\<close> and \<^verbatim>\<open>installCommand\<close>.
\<close>

record RemoteProvider =
  cli :: string
  cmd :: string
  installCommand :: "string option"

definition shScript :: "RemoteProvider \<Rightarrow> string" where
  "shScript provider =
     (let install = (if truthy (installCommand provider)
                     then '' Install: '' @ (case installCommand provider of
                                              None \<Rightarrow> [] | Some i \<Rightarrow> i)
                     else []);
          msg = ''emdash: '' @ cli provider @ '' not found on remote.'' @ install
      in ''if command -v '' @ quoteShellArg (cli provider) @
         '' >/dev/null 2>&1; then exec '' @ cmd provider @
         ''; else printf '' @ [squote] @ ''%s'' @ [bslash] @ ''n'' @ [squote] @ '' '' @
         quoteShellArg msg @ ''; fi'')"

definition buildRemoteInitKeystrokes :: "string option \<Rightarrow> RemoteProvider option \<Rightarrow> string" where
  "buildRemoteInitKeystrokes cwd provider =
     (let lines = [];
          lines = (if truthy cwd
                   then lines @ [''cd '' @ quoteShellArg (case cwd of None \<Rightarrow> [] | Some d \<Rightarrow> d)]
                   else lines);
          lines = (case provider of
                     None \<Rightarrow> lines
                   | Some p \<Rightarrow> lines @ [''sh -c '' @ quoteShellArg (shScript p)])
      in if lines \<noteq> [] then join [CHR 0x0A] lines @ [CHR 0x0A] else [])"

text \<open>
  \<^verbatim>\<open>wslExec\<close>: the command line that is handed to \<^verbatim>\<open>exec\<close>. Without a working
  directory on a WSL path it is the command itself; otherwise the command is wrapped.
  \<^verbatim>\<open>getWslDistro(cwd)!\<close> and \<^verbatim>\<open>toWslPosixPath(cwd)\<close> cannot fail after \<^verbatim>\<open>isWslPath(cwd)\<close>.
\<close>

definition wslShellPart :: "string \<Rightarrow> string" where
  "wslShellPart command = ''sh -c '' @ [squote] @ escapeSingleQuotes command @ [squote]"

definition wslExecCommand :: "string \<Rightarrow> string option \<Rightarrow> string" where
  "wslExecCommand command cwd =
     (case cwd of
        None \<Rightarrow> command
      | Some dir \<Rightarrow>
          if dir = [] \<or> \<not> isWslPath dir then command
          else (case (getWslDistro dir, toWslPosixPath dir) of
                  (Some distro, Inr posixCwd) \<Rightarrow>
                    ''wsl.exe -d '' @ distro @ '' --cd '' @ posixCwd @ '' -- '' @
                    wslShellPart command
                | _ \<Rightarrow> command))"

subsection \<open>How a POSIX shell reads a command line\<close>

text \<open>
  The token recognition of the POSIX shell, for command lines made of plain words: blanks
  separate words; a single quote starts a quoted part, which lasts up to the next single
  quote and stands for itself, character by character; outside quotes a backslash makes
  the next character stand for itself (and removes a following line feed). Any other
  character that the shell treats specially outside quotes (an operator, an expansion,
  a double quote, a pattern character, a line feed) makes the result \<open>None\<close>, as does a
  quote that is never closed: \<open>Some ws\<close> says that the line is one simple command with
  exactly the words \<open>ws\<close>.
\<close>

definition isBlank :: "char \<Rightarrow> bool" where
  "isBlank c \<longleftrightarrow> c = CHR '' '' \<or> c = CHR 0x09"

definition isShSpecial :: "char \<Rightarrow> bool" where
  "isShSpecial c \<longleftrightarrow>
     c \<in> set ''|&;<>()$*?[#~=%{}!'' \<or> c = CHR 0x60 \<or> c = CHR 0x22 \<or> c = CHR 0x0A"

text \<open>\<open>sh quoted cur rest\<close>: \<open>quoted\<close> says whether a single-quoted part is open, \<open>cur\<close> is
  the word in progress (\<open>None\<close> between words).\<close>

fun sh :: "bool \<Rightarrow> string option \<Rightarrow> string \<Rightarrow> string list option" where
  "sh True cur [] = None"
| "sh False cur [] = Some (case cur of None \<Rightarrow> [] | Some w \<Rightarrow> [w])"
| "sh True cur (c # cs) =
     (if c = squote then sh False cur cs
      else sh True (Some ((case cur of None \<Rightarrow> [] | Some w \<Rightarrow> w) @ [c])) cs)"
| "sh False cur (c # cs) =
     (if c = squote then sh True (Some (case cur of None \<Rightarrow> [] | Some w \<Rightarrow> w)) cs
      else if isBlank c
        then (case cur of
                None \<Rightarrow> sh False None cs
              | Some w \<Rightarrow> map_option (Cons w) (sh False None cs))
      else if c = bslash
        then (case cs of
                [] \<Rightarrow> None
              | d # ds \<Rightarrow>
                  if d = CHR 0x0A then sh False cur ds
                  else sh False (Some ((case cur of None \<Rightarrow> [] | Some w \<Rightarrow> w) @ [d])) ds)
      else if isShSpecial c then None
      else sh False (Some ((case cur of None \<Rightarrow> [] | Some w \<Rightarrow> w) @ [c])) cs)"

definition shWords :: "string \<Rightarrow> string list option" where
  "shWords line = sh False None line"

subsection \<open>The remote provider invocation\<close>

text \<open>
  What \<^verbatim>\<open>buildRemoteProviderInvocation\<close> reads of a provider definition
  (\<^verbatim>\<open>getProvider\<close>) and of a resolved command configuration
  (\<^verbatim>\<open>resolveProviderCommandConfig\<close>); both come from modules that are not among the
  sources and are parameters. A field that is \<^verbatim>\<open>undefined\<close> is \<open>None\<close>.
\<close>

record ProviderDef =
  p_cli :: "string option"
  p_resumeFlag :: "string option"
  p_defaultArgs :: "string list option"
  p_autoApproveFlag :: "string option"
  p_initialPromptFlag :: "string option"
  p_useKeystrokeInjection :: bool
  p_installCommand :: "string option"

record ResolvedConfig =
  rc_provider :: "ProviderDef option"
  rc_cli :: "string option"
  rc_resumeFlag :: "string option"
  rc_defaultArgs :: "string list option"
  rc_extraArgs :: "string list option"
  rc_autoApproveFlag :: "string option"
  rc_initialPromptFlag :: "string option"

text \<open>\<^verbatim>\<open>String.prototype.toLowerCase\<close> on code units below 256.\<close>

definition toLowerCase :: "string \<Rightarrow> string" where
  "toLowerCase s =
     map (\<lambda>c. let n = (of_char c :: nat)
               in if (65 \<le> n \<and> n \<le> 90) \<or> (192 \<le> n \<and> n \<le> 222 \<and> n \<noteq> 215)
                  then char_of (n + 32) else c) s"

text \<open>\<^verbatim>\<open>resolvedConfig?.f ?? fallbackProvider?.f\<close>.\<close>

definition resolved ::
  "ResolvedConfig option \<Rightarrow> ProviderDef option \<Rightarrow>
   (ResolvedConfig \<Rightarrow> 'a option) \<Rightarrow> (ProviderDef \<Rightarrow> 'a option) \<Rightarrow> 'a option" where
  "resolved resolvedConfig fallbackProvider f g =
     (case (case resolvedConfig of None \<Rightarrow> None | Some rc \<Rightarrow> f rc) of
        Some v \<Rightarrow> Some v
      | None \<Rightarrow> (case fallbackProvider of None \<Rightarrow> None | Some p \<Rightarrow> g p))"

text \<open>\<^verbatim>\<open>(resolvedConfig?.cli || fallbackProvider?.cli || providerId.toLowerCase()).trim()\<close>
  and its split into words; a command without any word stays as it is.\<close>

definition cliCommandParts ::
  "ProviderId \<Rightarrow> ResolvedConfig option \<Rightarrow> ProviderDef option \<Rightarrow> string list" where
  "cliCommandParts providerId resolvedConfig fallbackProvider =
     (let rcCli = (case resolvedConfig of None \<Rightarrow> None | Some rc \<Rightarrow> rc_cli rc);
          fbCli = (case fallbackProvider of None \<Rightarrow> None | Some p \<Rightarrow> p_cli p);
          cliCommand = trim (case (if truthy rcCli then rcCli
                                   else if truthy fbCli then fbCli else None) of
                               Some c \<Rightarrow> c
                             | None \<Rightarrow> toLowerCase providerId);
          parsedCliParts = parseShellArgs cliCommand
      in if parsedCliParts \<noteq> [] then parsedCliParts else [cliCommand])"

text \<open>The call of \<^verbatim>\<open>buildProviderCliArgs\<close> in \<^verbatim>\<open>buildRemoteProviderInvocation\<close>: each flag
  is that of the resolved configuration, or else that of the provider; the extra args are
  those of the resolved configuration.\<close>

definition remoteCliArgs ::
  "bool \<Rightarrow> bool \<Rightarrow> string option \<Rightarrow> ResolvedConfig option \<Rightarrow> ProviderDef option \<Rightarrow> string list" where
  "remoteCliArgs resumeArg autoApproveArg initialPromptArg resolvedConfig fallbackProvider =
     (let provider = (case (case resolvedConfig of None \<Rightarrow> None | Some rc \<Rightarrow> rc_provider rc) of
                        Some p \<Rightarrow> Some p
                      | None \<Rightarrow> fallbackProvider)
      in buildProviderCliArgs
           \<lparr>resume = resumeArg,
            resumeFlag = resolved resolvedConfig fallbackProvider rc_resumeFlag p_resumeFlag,
            defaultArgs = resolved resolvedConfig fallbackProvider rc_defaultArgs p_defaultArgs,
            extraArgs = (case resolvedConfig of None \<Rightarrow> None | Some rc \<Rightarrow> rc_extraArgs rc),
            autoApprove = autoApproveArg,
            autoApproveFlag =
              resolved resolvedConfig fallbackProvider rc_autoApproveFlag p_autoApproveFlag,
            initialPrompt = initialPromptArg,
            initialPromptFlag =
              resolved resolvedConfig fallbackProvider rc_initialPromptFlag p_initialPromptFlag,
            useKeystrokeInjection =
              (case provider of None \<Rightarrow> False | Some p \<Rightarrow> p_useKeystrokeInjection p)\<rparr>)"

text \<open>\<^verbatim>\<open>buildRemoteProviderInvocation\<close>: the first word of the command to look up, the
  command line with every word quoted, and the install hint of the provider.\<close>

definition buildRemoteProviderInvocation ::
  "ProviderId \<Rightarrow> bool \<Rightarrow> string option \<Rightarrow> bool \<Rightarrow>
   ResolvedConfig option \<Rightarrow> ProviderDef option \<Rightarrow> RemoteProvider" where
  "buildRemoteProviderInvocation providerId autoApproveArg initialPromptArg resumeArg
       resolvedConfig fallbackProvider =
     (let provider = (case (case resolvedConfig of None \<Rightarrow> None | Some rc \<Rightarrow> rc_provider rc) of
                        Some p \<Rightarrow> Some p
                      | None \<Rightarrow> fallbackProvider);
          parts = cliCommandParts providerId resolvedConfig fallbackProvider;
          cliArgs = remoteCliArgs resumeArg autoApproveArg initialPromptArg
                      resolvedConfig fallbackProvider;
          cmdParts = parts @ cliArgs
      in \<lparr>cli = hd parts,
          cmd = join '' '' (map quoteShellArg cmdParts),
          installCommand = (case provider of None \<Rightarrow> None | Some p \<Rightarrow> p_installCommand p)\<rparr>)"

section \<open>Properties of the WSL path utilities\<close>

lemma lower_pattern_chars:
  "toLowerAscii CHR ''w'' = CHR ''w''"
  "toLowerAscii CHR ''s'' = CHR ''s''"
  "toLowerAscii CHR ''l'' = CHR ''l''"
  "toLowerAscii CHR ''$'' = CHR ''$''"
  "toLowerAscii CHR ''.'' = CHR ''.''"
  "toLowerAscii CHR ''o'' = CHR ''o''"
  "toLowerAscii CHR ''c'' = CHR ''c''"
  "toLowerAscii CHR ''a'' = CHR ''a''"
  "toLowerAscii CHR ''h'' = CHR ''h''"
  "toLowerAscii CHR ''t'' = CHR ''t''"
  by code_simp+

lemma toLowerAscii_sep: "isSep c \<Longrightarrow> toLowerAscii c = c"
  by (auto simp: isSep_def bslash_def fslash_def toLowerAscii_def)

lemma matchLit_append:
  assumes "map toLowerAscii h = map toLowerAscii lit"
  shows "matchLit lit (h @ t) = Some (h, t)"
proof -
  have "length h = length lit"
    using assms by (rule map_eq_imp_length_eq)
  with assms show ?thesis
    by (simp add: matchLit_def)
qed

lemma matchLit_SomeD:
  assumes "matchLit lit s = Some (h, t)"
  shows "s = h @ t \<and> map toLowerAscii h = map toLowerAscii lit"
  using assms by (auto simp: matchLit_def split: if_splits)

lemma takeWhile_run:
  assumes "\<forall>c\<in>set d. \<not> isSep c" and "r = [] \<or> isSep (hd r)"
  shows "takeWhile (\<lambda>x. \<not> isSep x) (d @ r) = d"
proof -
  have "takeWhile (\<lambda>x. \<not> isSep x) r = []"
    using assms(2) by (cases r) auto
  moreover have "takeWhile (\<lambda>x. \<not> isSep x) (d @ r) = d @ takeWhile (\<lambda>x. \<not> isSep x) r"
    using assms(1) by (intro takeWhile_append2) auto
  ultimately show ?thesis by simp
qed

lemma matchDistro_run:
  assumes "isSep s" and "d \<noteq> []" and "\<forall>c\<in>set d. \<not> isSep c" and "r = [] \<or> isSep (hd r)"
  shows "matchDistro (s # d @ r) = Some (s # d, d)"
proof -
  have "takeWhile (\<lambda>x. \<not> isSep x) r = []"
    using assms(4) by (cases r) auto
  then show ?thesis
    using assms(1-3) by (simp add: matchDistro_def)
qed

lemma matchHost_run:
  assumes "map toLowerAscii h = map toLowerAscii lit"
    and "isSep s" and "d \<noteq> []" and "\<forall>c\<in>set d. \<not> isSep c" and "r = [] \<or> isSep (hd r)"
  shows "matchHost lit (h @ s # d @ r) = Some (h @ s # d, d)"
  using assms by (simp add: matchHost_def matchLit_append matchDistro_run)

lemma matchLit_nth:
  assumes "matchLit lit s = Some (h, t)" and "i < length lit"
  shows "toLowerAscii (s ! i) = toLowerAscii (lit ! i)"
proof -
  from assms(1) have len: "length lit \<le> length s"
    and eq: "map toLowerAscii (take (length lit) s) = map toLowerAscii lit"
    by (auto simp: matchLit_def split: if_splits)
  have "toLowerAscii (s ! i) = map toLowerAscii (take (length lit) s) ! i"
    using assms(2) len by simp
  also have "\<dots> = toLowerAscii (lit ! i)"
    using assms(2) by (simp add: eq)
  finally show ?thesis .
qed

lemma matchHost_dollar_localhost:
  assumes "map toLowerAscii h = ''wsl.localhost''"
  shows "matchHost ''wsl$'' (h @ t) = None"
proof (cases "matchLit ''wsl$'' (h @ t)")
  case None
  then show ?thesis
    by (simp add: matchHost_def)
next
  case (Some m)
  obtain a b where m: "m = (a, b)"
    by (cases m)
  have len: "length h = 13"
    using arg_cong [OF assms, of length] by simp
  have "toLowerAscii ((h @ t) ! 3) = toLowerAscii (''wsl$'' ! 3)"
    using Some unfolding m by (rule matchLit_nth) simp
  moreover have "toLowerAscii ((h @ t) ! 3) = map toLowerAscii h ! 3"
    using len by (simp add: nth_append)
  ultimately have "toLowerAscii (''wsl$'' ! 3) = ''wsl.localhost'' ! 3"
    by (simp add: assms)
  then show ?thesis
    by (simp add: lower_pattern_chars numeral_3_eq_3)
qed

lemma WSL_UNC_RE_form:
  assumes seps: "isSep s1" "isSep s2" "isSep s3"
    and host: "map toLowerAscii h = ''wsl$'' \<or> map toLowerAscii h = ''wsl.localhost''"
    and distro: "d \<noteq> []" "\<forall>c\<in>set d. \<not> isSep c"
    and rest: "r = [] \<or> isSep (hd r)"
  shows "WSL_UNC_RE (s1 # s2 # h @ s3 # d @ r) = Some (s1 # s2 # h @ s3 # d, d)"
  using host
proof
  assume "map toLowerAscii h = ''wsl$''"
  then have "matchHost ''wsl$'' (h @ s3 # d @ r) = Some (h @ s3 # d, d)"
    using seps(3) distro rest by (intro matchHost_run) (simp_all add: lower_pattern_chars)
  then show ?thesis
    using seps by (simp add: WSL_UNC_RE_def)
next
  assume h: "map toLowerAscii h = ''wsl.localhost''"
  then have "matchHost ''wsl.localhost'' (h @ s3 # d @ r) = Some (h @ s3 # d, d)"
    using seps(3) distro rest by (intro matchHost_run) (simp_all add: lower_pattern_chars)
  moreover have "matchHost ''wsl$'' (h @ s3 # d @ r) = None"
    using h by (rule matchHost_dollar_localhost)
  ultimately show ?thesis
    using seps by (simp add: WSL_UNC_RE_def)
qed

lemma toWslPosixPath_form:
  assumes "isSep s1" "isSep s2" "isSep s3"
    and "map toLowerAscii h = ''wsl$'' \<or> map toLowerAscii h = ''wsl.localhost''"
    and "d \<noteq> []" "\<forall>c\<in>set d. \<not> isSep c"
    and "r = [] \<or> isSep (hd r)"
  shows "toWslPosixPath (s1 # s2 # h @ s3 # d @ r) =
           Inr (if r = [] then [fslash] else map (\<lambda>c. if c = bslash then fslash else c) r)"
  using WSL_UNC_RE_form [OF assms] by (simp add: toWslPosixPath_def)

lemma isSep_of_char: "isSep c \<longleftrightarrow> (of_char c :: nat) = 92 \<or> (of_char c :: nat) = 47"
proof -
  have "(of_char c :: nat) = 92 \<longleftrightarrow> (of_char c :: nat) = of_char bslash"
    by (simp add: bslash_def)
  moreover have "(of_char c :: nat) = 47 \<longleftrightarrow> (of_char c :: nat) = of_char fslash"
    by (simp add: fslash_def)
  ultimately show ?thesis
    unfolding isSep_def by (simp only: of_char_eq_iff)
qed

lemma toLowerAscii_of_char:
  "(of_char (toLowerAscii c) :: nat) =
     (if 65 \<le> (of_char c :: nat) \<and> (of_char c :: nat) \<le> 90 then of_char c + 32 else of_char c)"
  by (simp add: toLowerAscii_def Let_def)

lemma isSep_toLowerAscii: "isSep (toLowerAscii c) \<longleftrightarrow> isSep c"
  unfolding isSep_of_char toLowerAscii_of_char by auto


lemma WSL_UNC_RE_two_seps:
  assumes "WSL_UNC_RE p = Some m"
  obtains c1 c2 r where "p = c1 # c2 # r" "isSep c1" "isSep c2"
  using assms
  by (auto simp: WSL_UNC_RE_def split: list.splits if_splits)

lemma drive_not_wsl: "isDrivePath p \<Longrightarrow> WSL_UNC_RE p = None"
  by (auto simp: isDrivePath_def WSL_UNC_RE_def isAsciiLetter_def isSep_def bslash_def
      fslash_def split: list.splits)

lemma posix_not_wsl: "isPosixPath p \<Longrightarrow> WSL_UNC_RE p = None"
  by (auto simp: isPosixPath_def WSL_UNC_RE_def split: list.splits)

lemma matchDistro_SomeD:
  assumes "matchDistro s = Some (m, d)"
  obtains c cs where "s = c # cs" "isSep c"
  using assms by (auto simp: matchDistro_def split: list.splits if_splits)

lemma matchHost_host:
  assumes m: "matchHost lit r = Some (m, d)"
    and nosep: "\<forall>c\<in>set lit. \<not> isSep c"
  shows "map toLowerAscii (takeWhile (\<lambda>x. \<not> isSep x) r) = map toLowerAscii lit"
proof -
  from m obtain h r' md where ml: "matchLit lit r = Some (h, r')"
    and mdist: "matchDistro r' = Some md"
    by (auto simp: matchHost_def split: option.splits prod.splits)
  obtain a b where md: "md = (a, b)" by (cases md)
  from ml have r: "r = h @ r'" and low: "map toLowerAscii h = map toLowerAscii lit"
    using matchLit_SomeD by blast+
  from mdist obtain c cs where r': "r' = c # cs" and c: "isSep c"
    unfolding md by (rule matchDistro_SomeD)
  have "\<not> isSep x" if "x \<in> set h" for x
  proof -
    have "toLowerAscii x \<in> set (map toLowerAscii lit)"
      using that unfolding low [symmetric] by simp
    then obtain y where y: "y \<in> set lit" "toLowerAscii x = toLowerAscii y"
      by auto
    have "isSep x \<longleftrightarrow> isSep y"
      using y(2) isSep_toLowerAscii by metis
    with nosep y(1) show ?thesis by blast
  qed
  then have "takeWhile (\<lambda>x. \<not> isSep x) r = h"
    unfolding r r' using c by (simp add: takeWhile_tail)
  with low show ?thesis by simp
qed


lemma plain_unc_not_wsl:
  assumes "isPlainUncShare p"
  shows "WSL_UNC_RE p = None"
proof (rule ccontr)
  assume "WSL_UNC_RE p \<noteq> None"
  then obtain m where m: "WSL_UNC_RE p = Some m"
    by auto
  then obtain c1 c2 r where p: "p = c1 # c2 # r" and seps: "isSep c1" "isSep c2"
    by (rule WSL_UNC_RE_two_seps)
  from assms have host: "map toLowerAscii (takeWhile (\<lambda>x. \<not> isSep x) r) \<noteq> ''wsl$''"
    "map toLowerAscii (takeWhile (\<lambda>x. \<not> isSep x) r) \<noteq> ''wsl.localhost''"
    by (simp_all add: isPlainUncShare_def uncHost_def p seps)
  from m consider a d where "matchHost ''wsl$'' r = Some (a, d)"
    | a d where "matchHost ''wsl.localhost'' r = Some (a, d)"
    by (auto simp: WSL_UNC_RE_def p seps split: option.splits)
  then show False
  proof cases
    case 1
    then have "map toLowerAscii (takeWhile (\<lambda>x. \<not> isSep x) r) = map toLowerAscii ''wsl$''"
      by (rule matchHost_host) (simp add: isSep_def bslash_def fslash_def)
    with host(1) show False
      by (simp add: lower_pattern_chars)
  next
    case 2
    then have "map toLowerAscii (takeWhile (\<lambda>x. \<not> isSep x) r)
        = map toLowerAscii ''wsl.localhost''"
      by (rule matchHost_host) (simp add: isSep_def bslash_def fslash_def)
    with host(2) show False
      by (simp add: lower_pattern_chars)
  qed
qed

lemma canonicalUnc_shape:
  "canonicalUnc lit d r =
     bslash # bslash # lit @ bslash # d @ map (\<lambda>c. if c = fslash then bslash else c) r"
  by (simp add: canonicalUnc_def)

lemma rest_to_backslashes:
  assumes "r = [] \<or> isSep (hd r)"
  shows "map (\<lambda>c. if c = fslash then bslash else c) r = [] \<or>
         isSep (hd (map (\<lambda>c. if c = fslash then bslash else c) r))"
  using assms by (cases r) (auto simp: isSep_def)

lemma posix_of_backslashes:
  "map (\<lambda>c. if c = bslash then fslash else c) (map (\<lambda>c. if c = fslash then bslash else c) r)
     = map (\<lambda>c. if c = bslash then fslash else c) r"
  by simp

text \<open>
  Claim C6. Every spelling of a WSL UNC path (two leading separators in either slash
  direction, the host \<^verbatim>\<open>wsl$\<close> or \<^verbatim>\<open>wsl.localhost\<close> in any letter case, a separator, a
  distro name, and a rest that is empty or starts with a separator) is a WSL path, yields
  the distro, and yields the same POSIX path as the canonical backslash spellings
  \<^verbatim>\<open>\\wsl$\<distro>...\<close> and \<^verbatim>\<open>\\wsl.localhost\<distro>...\<close>. A drive-letter path, a UNC
  share on any other host and a POSIX path with a single leading slash are never WSL
  paths: no distro is extracted and the conversion throws.
\<close>

theorem wsl_forms_classified_alike:
  "(isSep s1 \<and> isSep s2 \<and> isSep s3 \<and> isWslHost h \<and> isDistroName d \<and> isRest r \<longrightarrow>
      isWslPath (s1 # s2 # h @ s3 # d @ r) \<and>
      getWslDistro (s1 # s2 # h @ s3 # d @ r) = Some d \<and>
      (\<forall>lit\<in>{''wsl$'', ''wsl.localhost''}.
         isWslPath (canonicalUnc lit d r) \<and>
         getWslDistro (canonicalUnc lit d r) = getWslDistro (s1 # s2 # h @ s3 # d @ r) \<and>
         toWslPosixPath (canonicalUnc lit d r) = toWslPosixPath (s1 # s2 # h @ s3 # d @ r)) \<and>
      toWslPosixPath (s1 # s2 # h @ s3 # d @ r) =
        Inr (if r = [] then [fslash] else map (\<lambda>c. if c = bslash then fslash else c) r)) \<and>
   (isDrivePath p \<or> isPlainUncShare p \<or> isPosixPath p \<longrightarrow>
      \<not> isWslPath p \<and> getWslDistro p = None \<and> toWslPosixPath p = Inl (NotAWslUncPath p))"
proof (intro conjI impI)
  assume "isDrivePath p \<or> isPlainUncShare p \<or> isPosixPath p"
  then have none: "WSL_UNC_RE p = None"
    using drive_not_wsl plain_unc_not_wsl posix_not_wsl by blast
  show "\<not> isWslPath p" "getWslDistro p = None" "toWslPosixPath p = Inl (NotAWslUncPath p)"
    by (simp_all add: none isWslPath_def getWslDistro_def toWslPosixPath_def)
next
  assume hyp: "isSep s1 \<and> isSep s2 \<and> isSep s3 \<and> isWslHost h \<and> isDistroName d \<and> isRest r"
  then have seps: "isSep s1" "isSep s2" "isSep s3"
    and host: "map toLowerAscii h = ''wsl$'' \<or> map toLowerAscii h = ''wsl.localhost''"
    and distro: "d \<noteq> []" "\<forall>c\<in>set d. \<not> isSep c"
    and rest: "r = [] \<or> isSep (hd r)"
    by (auto simp: isWslHost_def isDistroName_def isRest_def list_all_iff split: list.splits)
  let ?p = "s1 # s2 # h @ s3 # d @ r"
  let ?w = "map (\<lambda>c. if c = fslash then bslash else c) r"
  have re: "WSL_UNC_RE ?p = Some (s1 # s2 # h @ s3 # d, d)"
    using seps host distro rest by (rule WSL_UNC_RE_form)
  have px: "toWslPosixPath ?p =
      Inr (if r = [] then [fslash] else map (\<lambda>c. if c = bslash then fslash else c) r)"
    using seps host distro rest by (rule toWslPosixPath_form)
  have bs: "isSep bslash"
    by (simp add: isSep_def)
  have canon: "WSL_UNC_RE (canonicalUnc lit d r) = Some (bslash # bslash # lit @ bslash # d, d)
      \<and> toWslPosixPath (canonicalUnc lit d r) = toWslPosixPath ?p"
    if lit: "lit \<in> {''wsl$'', ''wsl.localhost''}" for lit
  proof -
    have low: "map toLowerAscii lit = ''wsl$'' \<or> map toLowerAscii lit = ''wsl.localhost''"
      using lit by (auto simp: lower_pattern_chars)
    have 1: "WSL_UNC_RE (bslash # bslash # lit @ bslash # d @ ?w)
        = Some (bslash # bslash # lit @ bslash # d, d)"
      using bs bs bs low distro rest_to_backslashes [OF rest] by (rule WSL_UNC_RE_form)
    have "toWslPosixPath (bslash # bslash # lit @ bslash # d @ ?w) =
        Inr (if ?w = [] then [fslash] else map (\<lambda>c. if c = bslash then fslash else c) ?w)"
      using bs bs bs low distro rest_to_backslashes [OF rest] by (rule toWslPosixPath_form)
    also have "\<dots> = toWslPosixPath ?p"
      unfolding px posix_of_backslashes by simp
    finally show ?thesis
      using 1 by (simp add: canonicalUnc_shape)
  qed
  show "isWslPath ?p" "getWslDistro ?p = Some d"
    by (simp_all add: re isWslPath_def getWslDistro_def)
  show "toWslPosixPath ?p =
      Inr (if r = [] then [fslash] else map (\<lambda>c. if c = bslash then fslash else c) r)"
    by (rule px)
  show "\<forall>lit\<in>{''wsl$'', ''wsl.localhost''}.
         isWslPath (canonicalUnc lit d r) \<and>
         getWslDistro (canonicalUnc lit d r) = getWslDistro ?p \<and>
         toWslPosixPath (canonicalUnc lit d r) = toWslPosixPath ?p"
  proof
    fix lit :: string
    assume "lit \<in> {''wsl$'', ''wsl.localhost''}"
    from canon [OF this] show "isWslPath (canonicalUnc lit d r) \<and>
         getWslDistro (canonicalUnc lit d r) = getWslDistro ?p \<and>
         toWslPosixPath (canonicalUnc lit d r) = toWslPosixPath ?p"
      by (simp add: re isWslPath_def getWslDistro_def)
  qed
qed

theorem wsl_forms_classified_alike_witness:
  "(isSep fslash \<and> isSep bslash \<and> isSep fslash \<and> isWslHost ''WSL.LocalHost'' \<and>
    isDistroName ''Ubuntu'' \<and> isRest ''/home/user'') \<and>
   (isDrivePath ''C:/Users'' \<or> isPlainUncShare ''C:/Users'' \<or> isPosixPath ''C:/Users'') \<and>
   isPlainUncShare ''//server/share'' \<and> isPosixPath ''/home/user'' \<and>
   getWslDistro (fslash # bslash # ''WSL.LocalHost'' @ fslash # ''Ubuntu'' @ ''/home/user'')
     = Some ''Ubuntu'' \<and>
   toWslPosixPath (fslash # bslash # ''WSL.LocalHost'' @ fslash # ''Ubuntu'' @ ''/home/user'')
     = Inr ''/home/user'' \<and>
   toWslPosixPath (canonicalUnc ''wsl$'' ''Ubuntu'' ''/home/user'') = Inr ''/home/user'' \<and>
   \<not> isWslPath ''C:/Users''"
proof -
  have h1: "isSep fslash \<and> isSep bslash \<and> isSep fslash \<and> isWslHost ''WSL.LocalHost'' \<and>
    isDistroName ''Ubuntu'' \<and> isRest ''/home/user''"
    by code_simp
  have h2: "isPlainUncShare ''//server/share''" "isPosixPath ''/home/user''"
    by code_simp+
  have h3: "isDrivePath ''C:/Users'' \<or> isPlainUncShare ''C:/Users'' \<or> isPosixPath ''C:/Users''"
    by code_simp
  note inst = wsl_forms_classified_alike [of fslash bslash fslash "''WSL.LocalHost''" "''Ubuntu''"
      "''/home/user''" "''C:/Users''"]
  from inst h1 h3 show ?thesis
    using h2 by (simp add: bslash_def fslash_def)
qed

text \<open>
  Claim C7, as stated, fails: a POSIX file name may contain a backslash, the UNC form
  cannot tell it from a separator, and the way back turns it into a slash.
\<close>

theorem wsl_roundtrip_counterexample:
  "toWslPosixPath (toWindowsUncPath ''Ubuntu'' (''/a'' @ [bslash] @ ''b'')) = Inr ''/a/b'' \<and>
   ''/a/b'' \<noteq> ''/a'' @ [bslash] @ ''b''"
  by code_simp

text \<open>
  Claim C7, amended. For every distro name (not empty, without a separator) and every
  absolute POSIX path that contains no backslash, \<open>toWindowsUncPath\<close> followed by
  \<open>toWslPosixPath\<close> returns the POSIX path.
\<close>

theorem wsl_roundtrip:
  assumes "isDistroName d" and "isAbsolutePosix posix" and "bslash \<notin> set posix"
  shows "toWslPosixPath (toWindowsUncPath d posix) = Inr posix"
proof -
  have d: "d \<noteq> []" "\<forall>c\<in>set d. \<not> isSep c"
    using assms(1) by (simp_all add: isDistroName_def list_all_iff)
  have q: "posix \<noteq> []" "hd posix = fslash"
    using assms(2) by (auto simp: isAbsolutePosix_def split: list.splits)
  let ?w = "map (\<lambda>c. if c = fslash then bslash else c) posix"
  have bs: "isSep bslash"
    by (simp add: isSep_def)
  have low: "map toLowerAscii ''wsl$'' = ''wsl$'' \<or> map toLowerAscii ''wsl$'' = ''wsl.localhost''"
    by (simp add: lower_pattern_chars)
  have rest: "?w = [] \<or> isSep (hd ?w)"
    using q by (cases posix) (auto simp: isSep_def)
  have inv: "map (\<lambda>c. if c = bslash then fslash else c) ?w = posix"
    using assms(3) by (induction posix) auto
  have "toWindowsUncPath d posix = bslash # bslash # ''wsl$'' @ bslash # d @ ?w"
    by (simp add: toWindowsUncPath_def)
  moreover have "toWslPosixPath (bslash # bslash # ''wsl$'' @ bslash # d @ ?w) =
      Inr (if ?w = [] then [fslash] else map (\<lambda>c. if c = bslash then fslash else c) ?w)"
    using bs bs bs low d rest by (rule toWslPosixPath_form)
  ultimately show ?thesis
    using q(1) by (simp only: inv) simp
qed

theorem wsl_roundtrip_witness:
  "isDistroName ''Ubuntu'' \<and> isAbsolutePosix ''/home/user/project'' \<and>
   bslash \<notin> set ''/home/user/project'' \<and>
   toWslPosixPath (toWindowsUncPath ''Ubuntu'' ''/home/user/project'') = Inr ''/home/user/project''"
proof -
  have h: "isDistroName ''Ubuntu''" "isAbsolutePosix ''/home/user/project''"
    "bslash \<notin> set ''/home/user/project''"
    by code_simp+
  from wsl_roundtrip [OF h] h show ?thesis
    by blast
qed

section \<open>Properties of the PTY IPC layer\<close>

subsection \<open>What each operation leaves alone\<close>

lemma safeSendToOwner_frame [simp]:
  "owners (safeSendToOwner env i ch pl s) = owners s"
  "listeners (safeSendToOwner env i ch pl s) = listeners s"
  "providerPtyTimers (safeSendToOwner env i ch pl s) = providerPtyTimers s"
  "ptyProviderMap (safeSendToOwner env i ch pl s) = ptyProviderMap s"
  "finalizedPtys (safeSendToOwner env i ch pl s) = finalizedPtys s"
  "isAppQuitting (safeSendToOwner env i ch pl s) = isAppQuitting s"
  "ptyDataBuffers (safeSendToOwner env i ch pl s) = ptyDataBuffers s"
  "ptyDataTimers (safeSendToOwner env i ch pl s) = ptyDataTimers s"
  "ptys (safeSendToOwner env i ch pl s) = ptys s"
  "nextHandle (safeSendToOwner env i ch pl s) = nextHandle s"
  "exitHandlers (safeSendToOwner env i ch pl s) = exitHandlers s"
  "telemetry (safeSendToOwner env i ch pl s) = telemetry s"
  "notifications (safeSendToOwner env i ch pl s) = notifications s"
  "written (safeSendToOwner env i ch pl s) = written s"
  "killed (safeSendToOwner env i ch pl s) = killed s"
  by (simp_all add: safeSendToOwner_def split: option.splits)

lemma flushPtyData_frame [simp]:
  "owners (flushPtyData env i s) = owners s"
  "listeners (flushPtyData env i s) = listeners s"
  "providerPtyTimers (flushPtyData env i s) = providerPtyTimers s"
  "ptyProviderMap (flushPtyData env i s) = ptyProviderMap s"
  "finalizedPtys (flushPtyData env i s) = finalizedPtys s"
  "isAppQuitting (flushPtyData env i s) = isAppQuitting s"
  "ptyDataTimers (flushPtyData env i s) = ptyDataTimers s"
  "ptys (flushPtyData env i s) = ptys s"
  "nextHandle (flushPtyData env i s) = nextHandle s"
  "exitHandlers (flushPtyData env i s) = exitHandlers s"
  "telemetry (flushPtyData env i s) = telemetry s"
  "notifications (flushPtyData env i s) = notifications s"
  "written (flushPtyData env i s) = written s"
  "killed (flushPtyData env i s) = killed s"
  by (simp_all add: flushPtyData_def split: option.splits)

lemma clearPtyData_frame [simp]:
  "owners (clearPtyData i s) = owners s"
  "listeners (clearPtyData i s) = listeners s"
  "providerPtyTimers (clearPtyData i s) = providerPtyTimers s"
  "ptyProviderMap (clearPtyData i s) = ptyProviderMap s"
  "finalizedPtys (clearPtyData i s) = finalizedPtys s"
  "isAppQuitting (clearPtyData i s) = isAppQuitting s"
  "ptys (clearPtyData i s) = ptys s"
  "nextHandle (clearPtyData i s) = nextHandle s"
  "exitHandlers (clearPtyData i s) = exitHandlers s"
  "telemetry (clearPtyData i s) = telemetry s"
  "notifications (clearPtyData i s) = notifications s"
  "sent (clearPtyData i s) = sent s"
  "written (clearPtyData i s) = written s"
  "killed (clearPtyData i s) = killed s"
  by (simp_all add: clearPtyData_def)

lemma showCompletionNotification_frame [simp]:
  "owners (showCompletionNotification env n s) = owners s"
  "listeners (showCompletionNotification env n s) = listeners s"
  "providerPtyTimers (showCompletionNotification env n s) = providerPtyTimers s"
  "ptyProviderMap (showCompletionNotification env n s) = ptyProviderMap s"
  "finalizedPtys (showCompletionNotification env n s) = finalizedPtys s"
  "isAppQuitting (showCompletionNotification env n s) = isAppQuitting s"
  "ptyDataBuffers (showCompletionNotification env n s) = ptyDataBuffers s"
  "ptyDataTimers (showCompletionNotification env n s) = ptyDataTimers s"
  "ptys (showCompletionNotification env n s) = ptys s"
  "nextHandle (showCompletionNotification env n s) = nextHandle s"
  "exitHandlers (showCompletionNotification env n s) = exitHandlers s"
  "telemetry (showCompletionNotification env n s) = telemetry s"
  "sent (showCompletionNotification env n s) = sent s"
  "written (showCompletionNotification env n s) = written s"
  "killed (showCompletionNotification env n s) = killed s"
  by (simp_all add: showCompletionNotification_def)

lemma maybeMarkProviderFinish_frame [simp]:
  "owners (maybeMarkProviderFinish env i e sg c s) = owners s"
  "listeners (maybeMarkProviderFinish env i e sg c s) = listeners s"
  "isAppQuitting (maybeMarkProviderFinish env i e sg c s) = isAppQuitting s"
  "ptyDataBuffers (maybeMarkProviderFinish env i e sg c s) = ptyDataBuffers s"
  "ptyDataTimers (maybeMarkProviderFinish env i e sg c s) = ptyDataTimers s"
  "ptys (maybeMarkProviderFinish env i e sg c s) = ptys s"
  "nextHandle (maybeMarkProviderFinish env i e sg c s) = nextHandle s"
  "exitHandlers (maybeMarkProviderFinish env i e sg c s) = exitHandlers s"
  "sent (maybeMarkProviderFinish env i e sg c s) = sent s"
  "written (maybeMarkProviderFinish env i e sg c s) = written s"
  "killed (maybeMarkProviderFinish env i e sg c s) = killed s"
  by (simp_all add: maybeMarkProviderFinish_def Let_def split: option.splits prod.splits)




lemma finish_notifications:
  "notifications (maybeMarkProviderFinish env i e sg c s) =
     notifications s @
       (if i \<notin> finalizedPtys s \<and> c = process_exit \<and> e = Some 0 \<and> notificationsEnabled env \<and>
           notificationSupported env \<and> \<not> anyFocused env
        then (case finishKey env i s of
                None \<Rightarrow> []
              | Some (p, key) \<Rightarrow>
                  [\<lparr>title = (case getProviderName env p of Some n \<Rightarrow> n | None \<Rightarrow> p)
                             @ '' Task Complete'',
                    body = ''Your agent has finished working'',
                    silent = (\<not> notificationsSound env)\<rparr>])
        else [])"
  by (auto simp: maybeMarkProviderFinish_def finishKey_def showCompletionNotification_def Let_def
      split: option.splits)

subsection \<open>Finalize\<close>

lemma finishKey_finalizedPtys [simp]:
  "finishKey env i (s\<lparr>finalizedPtys := X\<rparr>) = finishKey env i s"
  by (simp add: finishKey_def)

text \<open>The direct CLI session, field by field: process 0 stored for the id, the sender
  bound as owner, the listener flag set, the exit callback attached with \<^verbatim>\<open>usedFallback\<close>
  false, the provider recorded and its run timer started.\<close>

lemma directSession_fields:
  "directSession ptyId wc =
     initialState
       \<lparr>owners := [ptyId \<mapsto> wc], listeners := {ptyId},
        providerPtyTimers := [''codex:'' @ ptyId \<mapsto> 500],
        ptyProviderMap := [ptyId \<mapsto> ''codex''],
        ptys := [ptyId \<mapsto> 0], nextHandle := 1,
        exitHandlers := (\<lambda>h. [])(0 := [StartDirectExit ptyId False]),
        telemetry := [agent_run_start ''codex''],
        sent := [(9, ''pty:started'', StartedInfo ptyId)],
        wcDestroyedListeners := {wc}\<rparr>"
  by (simp add: directSession_def ptyStartDirect_def startDirectAttach_def startDirectPty_def
      startPty_def getPty_def onExit_def broadcastStarted_def maybeMarkProviderStart_def
      startTimer_def testEnv_def initialState_def)

lemmas example_defs = exampleId_def testEnv_def directSession_fields initialState_def

lemmas start_defs = restartedAfterKill_def ptyKill_def killPty_def ptyStartDirect_def
  startDirectAttach_def startDirectPty_def startPty_def getPty_def onExit_def
  broadcastStarted_def maybeMarkProviderStart_def startTimer_def














text \<open>
  Claim C2. A finalize call adds a completion notification only when its cause is the
  natural process exit and its exit code is zero (and then only when notifications are
  enabled and supported and no window is focused). With any other cause, application
  shutdown, owner teardown or manual kill, it adds none, also with exit code zero. The
  exit callbacks pass the cause of application shutdown while the application is
  quitting, and the kill request passes that of a manual kill: they add none either.
\<close>

theorem notification_only_on_natural_zero_exit:
  "(notifications (maybeMarkProviderFinish env ptyId e sg c s) \<noteq> notifications s \<longrightarrow>
      c = process_exit \<and> e = Some 0 \<and> notificationsEnabled env \<and> notificationSupported env \<and>
      \<not> anyFocused env) \<and>
   (c = app_quit \<or> c = owner_destroyed \<or> c = manual_kill \<longrightarrow>
      notifications (maybeMarkProviderFinish env ptyId (Some 0) sg c s) = notifications s) \<and>
   (isAppQuitting s \<longrightarrow>
      notifications (startExit proc env ptyId e sg s) = notifications s \<and>
      notifications (startDirectExit proc fb env ptyId e sg s) = notifications s) \<and>
   notifications (ptyKill env ptyId s) = notifications s"
proof -
  have 1: "notifications (maybeMarkProviderFinish env ptyId e sg c s) \<noteq> notifications s \<longrightarrow>
      c = process_exit \<and> e = Some 0 \<and> notificationsEnabled env \<and> notificationSupported env \<and>
      \<not> anyFocused env"
    unfolding finish_notifications by (auto split: if_splits)
  have 2: "c = app_quit \<or> c = owner_destroyed \<or> c = manual_kill \<longrightarrow>
      notifications (maybeMarkProviderFinish env ptyId (Some 0) sg c s) = notifications s"
    unfolding finish_notifications by auto
  have 3: "isAppQuitting s \<longrightarrow>
      notifications (startExit proc env ptyId e sg s) = notifications s \<and>
      notifications (startDirectExit proc fb env ptyId e sg s) = notifications s"
    by (simp add: startExit_def startDirectExit_def removePtyRecord_def Let_def
        finish_notifications)
  have 4: "notifications (ptyKill env ptyId s) = notifications s"
    by (simp add: ptyKill_def killPty_def Let_def finish_notifications split: option.splits)
  from 1 2 3 4 show ?thesis
    by (intro conjI)
qed

theorem notification_only_on_natural_zero_exit_witness:
  "notifications (maybeMarkProviderFinish testEnv exampleId (Some 0) None process_exit
      (directSession exampleId 7)) \<noteq> notifications (directSession exampleId 7) \<and>
   notificationsEnabled testEnv \<and> notificationSupported testEnv \<and> \<not> anyFocused testEnv \<and>
   (app_quit = app_quit \<or> app_quit = owner_destroyed \<or> app_quit = manual_kill) \<and>
   notifications (maybeMarkProviderFinish testEnv exampleId (Some 0) None app_quit
      (directSession exampleId 7)) = [] \<and>
   runFinishEvents (maybeMarkProviderFinish testEnv exampleId (Some 0) None app_quit
      (directSession exampleId 7)) = [agent_run_finish ''codex'' outcome_ok (Some 500)] \<and>
   isAppQuitting ((directSession exampleId 7)\<lparr>isAppQuitting := True\<rparr>) \<and>
   notifications (startDirectExit 0 False testEnv exampleId (Some 0) None
      ((directSession exampleId 7)\<lparr>isAppQuitting := True\<rparr>)) = []"
proof -
  have h1: "notifications (maybeMarkProviderFinish testEnv exampleId (Some 0) None process_exit
      (directSession exampleId 7)) \<noteq> notifications (directSession exampleId 7)"
    by (simp add: example_defs maybeMarkProviderFinish_def finishKey_def
        showCompletionNotification_def)
  have h2: "app_quit = app_quit \<or> app_quit = owner_destroyed \<or> app_quit = manual_kill"
    by simp
  have h3: "isAppQuitting ((directSession exampleId 7)\<lparr>isAppQuitting := True\<rparr>)"
    by simp
  have n0: "notifications (directSession exampleId 7) = []"
    by (simp add: example_defs)
  have r: "runFinishEvents (maybeMarkProviderFinish testEnv exampleId (Some 0) None app_quit
      (directSession exampleId 7)) = [agent_run_finish ''codex'' outcome_ok (Some 500)]"
    by (simp add: example_defs maybeMarkProviderFinish_def finishKey_def runFinishEvents_def)
  note a = notification_only_on_natural_zero_exit [of testEnv exampleId "Some 0" None process_exit
      "directSession exampleId 7"]
  note b = notification_only_on_natural_zero_exit [of testEnv exampleId "Some 0" None app_quit
      "directSession exampleId 7"]
  note c = notification_only_on_natural_zero_exit [of testEnv exampleId "Some 0" None process_exit
      "(directSession exampleId 7)\<lparr>isAppQuitting := True\<rparr>" 0 False]
  from a h1 have e: "notificationsEnabled testEnv \<and> notificationSupported testEnv \<and>
      \<not> anyFocused testEnv"
    by blast
  from b h2 have k: "notifications (maybeMarkProviderFinish testEnv exampleId (Some 0) None
      app_quit (directSession exampleId 7)) = []"
    unfolding n0 by blast
  from c h3 have q: "notifications (startDirectExit 0 False testEnv exampleId (Some 0) None
      ((directSession exampleId 7)\<lparr>isAppQuitting := True\<rparr>)) = []"
    using n0 by simp
  from h1 e h2 k r h3 q show ?thesis
    by blast
qed

text \<open>
  Claim C5. A finalize call without a numeric exit code adds no telemetry event, so no
  duration and no outcome is accounted and no run-finish event is emitted, and it adds no
  notification; when the call is not a no-op, the run timer of the key of the id is
  cleared all the same.
\<close>

theorem no_exit_code_no_accounting:
  "telemetry (maybeMarkProviderFinish env ptyId None sg c s) = telemetry s \<and>
   notifications (maybeMarkProviderFinish env ptyId None sg c s) = notifications s \<and>
   (ptyId \<notin> finalizedPtys s \<and> finishKey env ptyId s = Some (p, key) \<longrightarrow>
      providerPtyTimers (maybeMarkProviderFinish env ptyId None sg c s) key = None)"
  by (auto simp: maybeMarkProviderFinish_def Let_def split: option.splits)

theorem no_exit_code_no_accounting_witness:
  "exampleId \<notin> finalizedPtys (directSession exampleId 7) \<and>
   finishKey testEnv exampleId (directSession exampleId 7)
     = Some (''codex'', ''codex:codex-main-task-1'') \<and>
   providerPtyTimers (directSession exampleId 7) ''codex:codex-main-task-1'' = Some 500 \<and>
   providerPtyTimers (maybeMarkProviderFinish testEnv exampleId None None owner_destroyed
      (directSession exampleId 7)) ''codex:codex-main-task-1'' = None \<and>
   telemetry (maybeMarkProviderFinish testEnv exampleId None None owner_destroyed
      (directSession exampleId 7)) = [agent_run_start ''codex'']"
proof -
  have h: "exampleId \<notin> finalizedPtys (directSession exampleId 7) \<and>
      finishKey testEnv exampleId (directSession exampleId 7)
        = Some (''codex'', ''codex:codex-main-task-1'')"
    by (simp add: example_defs finishKey_def)
  have t: "providerPtyTimers (directSession exampleId 7) ''codex:codex-main-task-1'' = Some 500"
    "telemetry (directSession exampleId 7) = [agent_run_start ''codex'']"
    by (simp_all add: example_defs)
  from no_exit_code_no_accounting [of testEnv exampleId None owner_destroyed
      "directSession exampleId 7" "''codex''" "''codex:codex-main-task-1''"] h t
  show ?thesis
    by simp
qed

subsection \<open>Exit callbacks and the respawn\<close>

lemma startExit_superseded:
  assumes "ptys s ptyId \<noteq> Some proc"
  shows "ptys (startExit proc env ptyId e sg s) = ptys s"
    and "owners (startExit proc env ptyId e sg s) = owners s"
    and "listeners (startExit proc env ptyId e sg s) = listeners s"
    and "exitHandlers (startExit proc env ptyId e sg s) = exitHandlers s"
    and "nextHandle (startExit proc env ptyId e sg s) = nextHandle s"
    and "written (startExit proc env ptyId e sg s) = written s"
    and "telemetry (startExit proc env ptyId e sg s) = telemetry s"
  using assms by (simp_all add: startExit_def getPty_def Let_def)

lemma startDirectExit_superseded:
  assumes "ptys s ptyId = Some current" and "current \<noteq> proc"
  shows "ptys (startDirectExit proc fb env ptyId e sg s) = ptys s"
    and "owners (startDirectExit proc fb env ptyId e sg s) = owners s"
    and "listeners (startDirectExit proc fb env ptyId e sg s) = listeners s"
    and "exitHandlers (startDirectExit proc fb env ptyId e sg s) = exitHandlers s"
    and "nextHandle (startDirectExit proc fb env ptyId e sg s) = nextHandle s"
    and "written (startDirectExit proc fb env ptyId e sg s) = written s"
  using assms by (simp_all add: startDirectExit_def getPty_def Let_def)

lemma startDirectExit_current:
  assumes "ptys s ptyId = Some proc \<or> ptys s ptyId = None"
  shows "ptys (startDirectExit proc fb env ptyId e sg s) = (ptys s)(ptyId := None)"
    and "owners (startDirectExit proc fb env ptyId e sg s)
          = (if fb then (owners s)(ptyId := None) else owners s)"
    and "listeners (startDirectExit proc fb env ptyId e sg s) = listeners s - {ptyId}"
    and "exitHandlers (startDirectExit proc fb env ptyId e sg s) = exitHandlers s"
    and "nextHandle (startDirectExit proc fb env ptyId e sg s) = nextHandle s"
    and "written (startDirectExit proc fb env ptyId e sg s) = written s"
  using assms by (auto simp: startDirectExit_def getPty_def removePtyRecord_def Let_def)

lemma respawn_spawn_ok:
  assumes "owners s ptyId = Some wc"
  shows "onDirectCliExit_spawn spawn_ok ptyId s =
           (Some (wc, Some (nextHandle s)),
            s\<lparr>ptys := (ptys s)(ptyId \<mapsto> nextHandle s), nextHandle := Suc (nextHandle s)\<rparr>)"
  using assms by (simp add: onDirectCliExit_spawn_def startPty_def)

lemma respawn_spawn_fails:
  assumes "owners s ptyId = Some wc" and "sp \<noteq> spawn_ok"
  shows "onDirectCliExit_spawn sp ptyId s = (Some (wc, None), s)"
  using assms by (simp add: onDirectCliExit_spawn_def startPty_def)

lemma respawn_spawn_no_owner:
  assumes "owners s ptyId = None"
  shows "onDirectCliExit_spawn sp ptyId s = (None, s)"
  using assms by (simp add: onDirectCliExit_spawn_def)

lemma respawn_resume_ok:
  "ptys (onDirectCliExit_resume env ptyId (Some (wc, Some new)) s) = ptys s"
  "owners (onDirectCliExit_resume env ptyId (Some (wc, Some new)) s) = owners s"
  "listeners (onDirectCliExit_resume env ptyId (Some (wc, Some new)) s) = insert ptyId (listeners s)"
  "written (onDirectCliExit_resume env ptyId (Some (wc, Some new)) s) = written s"
  "telemetry (onDirectCliExit_resume env ptyId (Some (wc, Some new)) s) = telemetry s"
  "notifications (onDirectCliExit_resume env ptyId (Some (wc, Some new)) s) = notifications s"
  "nextHandle (onDirectCliExit_resume env ptyId (Some (wc, Some new)) s) = nextHandle s"
  "exitHandlers (onDirectCliExit_resume env ptyId (Some (wc, Some new)) s) =
     (exitHandlers s)(new := exitHandlers s new @ [RespawnedShellExit ptyId])"
  by (auto simp: onDirectCliExit_resume_def onExit_def Let_def)

lemma writePty_to_current:
  assumes "ptys s ptyId = Some h"
  shows "written (ptyInput env ptyId data s) = written s @ [(h, data)]"
  using assms by (simp add: ptyInput_def writePty_def Let_def split: option.splits prod.splits)

text \<open>
  The exit callbacks of \<^verbatim>\<open>pty:start\<close> and of \<^verbatim>\<open>pty:startDirect\<close> (local branch) check the
  stored process: when such a callback fires for a process while another process is
  stored for the id, it leaves the registry of every id as it is: the record of the
  replacement, the owner bindings and the listener flags. When a direct CLI session with
  an owner exits (its handle one that the process table handed out before) and the shell
  is respawned, in whichever order the respawn callback and the exit callback of the old
  process run, the id holds a handle that differs from the old one, the exit has written
  to no process, and input written to the id afterwards reaches the new handle.
\<close>

lemma superseded_exit_leaves_registry:
  "(ptys s ptyId = Some current \<and> current \<noteq> proc \<longrightarrow>
      ptys (startExit proc env ptyId e sg s) = ptys s \<and>
      owners (startExit proc env ptyId e sg s) = owners s \<and>
      listeners (startExit proc env ptyId e sg s) = listeners s \<and>
      ptys (startDirectExit proc fb env ptyId e sg s) = ptys s \<and>
      owners (startDirectExit proc fb env ptyId e sg s) = owners s \<and>
      listeners (startDirectExit proc fb env ptyId e sg s) = listeners s) \<and>
   (ptys s ptyId = Some proc \<and> proc < nextHandle s \<and> owners s ptyId = Some wc \<and>
    exitHandlers s proc = [StartDirectExit ptyId False] \<and>
    s' \<in> {directCliExit spawn_ok env proc ptyId e sg s,
          emitExit env proc e sg (onDirectCliExit spawn_ok env ptyId s),
          onDirectCliExit spawn_ok env ptyId (emitExit env proc e sg s)} \<longrightarrow>
      ptys s' ptyId = Some (nextHandle s) \<and> nextHandle s \<noteq> proc \<and>
      owners s' ptyId = Some wc \<and> ptyId \<in> listeners s' \<and>
      written s' = written s \<and>
      written (ptyInput env' ptyId data s') = written s @ [(nextHandle s, data)])"
proof -
  have 1: "ptys s ptyId = Some current \<and> current \<noteq> proc \<longrightarrow>
      ptys (startExit proc env ptyId e sg s) = ptys s \<and>
      owners (startExit proc env ptyId e sg s) = owners s \<and>
      listeners (startExit proc env ptyId e sg s) = listeners s \<and>
      ptys (startDirectExit proc fb env ptyId e sg s) = ptys s \<and>
      owners (startDirectExit proc fb env ptyId e sg s) = owners s \<and>
      listeners (startDirectExit proc fb env ptyId e sg s) = listeners s"
    by (simp add: startExit_superseded startDirectExit_superseded)
  have 2: "ptys s' ptyId = Some (nextHandle s) \<and> nextHandle s \<noteq> proc \<and>
      owners s' ptyId = Some wc \<and> ptyId \<in> listeners s' \<and>
      written s' = written s \<and>
      written (ptyInput env' ptyId data s') = written s @ [(nextHandle s, data)]"
    if rec: "ptys s ptyId = Some proc" and old: "proc < nextHandle s"
      and own: "owners s ptyId = Some wc"
      and hs: "exitHandlers s proc = [StartDirectExit ptyId False]"
      and s': "s' \<in> {directCliExit spawn_ok env proc ptyId e sg s,
          emitExit env proc e sg (onDirectCliExit spawn_ok env ptyId s),
          onDirectCliExit spawn_ok env ptyId (emitExit env proc e sg s)}"
  proof -
    let ?n = "nextHandle s"
    let ?s1 = "s\<lparr>ptys := (ptys s)(ptyId \<mapsto> ?n), nextHandle := Suc ?n\<rparr>"
    have ne: "?n \<noteq> proc"
      using old by simp
    have spawn: "onDirectCliExit_spawn spawn_ok ptyId s = (Some (wc, Some ?n), ?s1)"
      using own by (rule respawn_spawn_ok)
    have sup: "ptys ?s1 ptyId = Some ?n"
      by simp
    have main: "ptys s' ptyId = Some ?n \<and> owners s' ptyId = Some wc \<and> ptyId \<in> listeners s' \<and>
        written s' = written s"
      using s'
    proof (elim insertE emptyE)
      assume "s' = directCliExit spawn_ok env proc ptyId e sg s"
      then show ?thesis
        using hs own ne
        by (simp add: directCliExit_def spawn emitExit_def respawn_resume_ok
            startDirectExit_superseded [OF sup ne])
    next
      assume "s' = emitExit env proc e sg (onDirectCliExit spawn_ok env ptyId s)"
      moreover have "exitHandlers (onDirectCliExit spawn_ok env ptyId s) proc
          = [StartDirectExit ptyId False]"
        using hs ne by (simp add: onDirectCliExit_def spawn respawn_resume_ok)
      moreover have "ptys (onDirectCliExit spawn_ok env ptyId s) ptyId = Some ?n"
        by (simp add: onDirectCliExit_def spawn respawn_resume_ok)
      ultimately show ?thesis
        using own ne
        by (simp add: emitExit_def startDirectExit_superseded [OF _ ne])
          (simp add: onDirectCliExit_def spawn respawn_resume_ok)
    next
      assume a: "s' = onDirectCliExit spawn_ok env ptyId (emitExit env proc e sg s)"
      let ?t = "emitExit env proc e sg s"
      have t: "?t = startDirectExit proc False env ptyId e sg s"
        using hs by (simp add: emitExit_def)
      have cur: "ptys s ptyId = Some proc \<or> ptys s ptyId = None"
        using rec by simp
      have town: "owners ?t ptyId = Some wc"
        unfolding t using own by (simp add: startDirectExit_current [OF cur])
      have "onDirectCliExit_spawn spawn_ok ptyId ?t =
          (Some (wc, Some (nextHandle ?t)),
           ?t\<lparr>ptys := (ptys ?t)(ptyId \<mapsto> nextHandle ?t), nextHandle := Suc (nextHandle ?t)\<rparr>)"
        using town by (rule respawn_spawn_ok)
      then show ?thesis
        unfolding a onDirectCliExit_def
        using own by (simp add: respawn_resume_ok t startDirectExit_current [OF cur])
    qed
    then have "written (ptyInput env' ptyId data s') = written s @ [(?n, data)]"
      using writePty_to_current [of s' ptyId ?n env' data] by simp
    with main ne show ?thesis
      by simp
  qed
  from 1 2 show ?thesis
    by blast
qed

lemmas run_defs = directCliExit_def onDirectCliExit_spawn_def onDirectCliExit_resume_def
  startPty_def killPty_def emitExit_def startDirectExit_def flushPtyData_def clearPtyData_def
  safeSendToOwner_def maybeMarkProviderFinish_def finishKey_def showCompletionNotification_def
  getPty_def removePtyRecord_def onExit_def registry_def parseProviderPty_def
  providerRunKey_def

lemma superseded_exit_leaves_registry_example:
  "ptys (directSession exampleId 7) exampleId = Some 0 \<and>
   0 < nextHandle (directSession exampleId 7) \<and>
   owners (directSession exampleId 7) exampleId = Some 7 \<and>
   exitHandlers (directSession exampleId 7) 0 = [StartDirectExit exampleId False] \<and>
   registry exampleId
     (directCliExit spawn_ok testEnv 0 exampleId (Some 130) None (directSession exampleId 7))
     = (Some 1, Some 7, True) \<and>
   written (ptyInput testEnv exampleId ''ls''
     (directCliExit spawn_ok testEnv 0 exampleId (Some 130) None (directSession exampleId 7)))
     = [(1, ''ls'')] \<and>
   registry exampleId
     (startDirectExit 0 False testEnv exampleId (Some 130) None
        (directCliExit spawn_ok testEnv 0 exampleId (Some 130) None (directSession exampleId 7)))
     = (Some 1, Some 7, True) \<and>
   registry exampleId
     (startExit 0 testEnv exampleId (Some 130) None
        (directCliExit spawn_ok testEnv 0 exampleId (Some 130) None (directSession exampleId 7)))
     = (Some 1, Some 7, True)"
proof -
  let ?s = "directSession exampleId 7"
  let ?s' = "directCliExit spawn_ok testEnv 0 exampleId (Some 130) None ?s"
  have h: "ptys ?s exampleId = Some 0" "0 < nextHandle ?s" "owners ?s exampleId = Some 7"
    "exitHandlers ?s 0 = [StartDirectExit exampleId False]" "nextHandle ?s = 1"
    "written ?s = []"
    by (simp_all add: example_defs)
  have m: "?s' \<in> {directCliExit spawn_ok testEnv 0 exampleId (Some 130) None ?s,
      emitExit testEnv 0 (Some 130) None (onDirectCliExit spawn_ok testEnv exampleId ?s),
      onDirectCliExit spawn_ok testEnv exampleId (emitExit testEnv 0 (Some 130) None ?s)}"
    by simp
  note a = superseded_exit_leaves_registry [of ?s exampleId 0 0 testEnv "Some 130" None False 7
      ?s' testEnv "''ls''"]
  from a h m have r: "ptys ?s' exampleId = Some 1" "owners ?s' exampleId = Some 7"
    "exampleId \<in> listeners ?s'"
    "written (ptyInput testEnv exampleId ''ls'' ?s') = [(1, ''ls'')]"
    by simp_all
  have c: "ptys ?s' exampleId = Some 1 \<and> (1::nat) \<noteq> 0"
    using r by simp
  note b = superseded_exit_leaves_registry [of ?s' exampleId 1 0 testEnv "Some 130" None False]
  from b c have "registry exampleId (startDirectExit 0 False testEnv exampleId (Some 130) None ?s')
      = registry exampleId ?s'"
    "registry exampleId (startExit 0 testEnv exampleId (Some 130) None ?s') = registry exampleId ?s'"
    by (simp_all add: registry_def)
  moreover have "registry exampleId ?s' = (Some 1, Some 7, True)"
    using r by (simp add: registry_def)
  ultimately show ?thesis
    using h r by simp
qed

text \<open>
  Claim C3 fails for the exit callbacks that carry no check of the stored process: the
  callback of a respawned shell and the callbacks of SSH processes remove the record, the
  owner binding and the listener flag of their id whatever process is stored for it. So:
  a direct CLI session exits and its shell is respawned as process 1; the session is
  killed on request and started again under its id, as process 2 with owner 7; then the
  late exit callback of process 1, superseded, removes the record of process 2, its owner
  and its listener flag, and input written to the id reaches no process.
\<close>

theorem stale_exit_removes_live_registry:
  "registry exampleId respawnedSession = (Some 1, Some 7, True) \<and>
   killed (restartedAfterKill respawnedSession) = [1] \<and>
   registry exampleId (restartedAfterKill respawnedSession) = (Some 2, Some 7, True) \<and>
   exitHandlers (restartedAfterKill respawnedSession) 1 = [RespawnedShellExit exampleId] \<and>
   registry exampleId (emitExit testEnv 1 (Some 0) None (restartedAfterKill respawnedSession))
     = (None, None, False) \<and>
   written (ptyInput testEnv exampleId ''ls'' (restartedAfterKill respawnedSession))
     = [(2, ''ls'')] \<and>
   written (ptyInput testEnv exampleId ''ls''
      (emitExit testEnv 1 (Some 0) None (restartedAfterKill respawnedSession))) = [] \<and>
   registry ptyId (respawnedShellExit env ptyId e sg s) = (None, None, False) \<and>
   registry ptyId (sshExit env ptyId e sg s) = (None, None, False) \<and>
   registry ptyId (sshDirectExit env ptyId e sg s) = (None, None, False)"
proof -
  have closed: "registry exampleId respawnedSession = (Some 1, Some 7, True)"
    "killed (restartedAfterKill respawnedSession) = [1]"
    "registry exampleId (restartedAfterKill respawnedSession) = (Some 2, Some 7, True)"
    "exitHandlers (restartedAfterKill respawnedSession) 1 = [RespawnedShellExit exampleId]"
    "registry exampleId (emitExit testEnv 1 (Some 0) None (restartedAfterKill respawnedSession))
       = (None, None, False)"
    "written (ptyInput testEnv exampleId ''ls'' (restartedAfterKill respawnedSession))
       = [(2, ''ls'')]"
    "written (ptyInput testEnv exampleId ''ls''
        (emitExit testEnv 1 (Some 0) None (restartedAfterKill respawnedSession))) = []"
    by (simp_all add: respawnedSession_def run_defs start_defs example_defs
        respawnedShellExit_def ptyInput_def writePty_def)
  have unguarded: "registry ptyId (respawnedShellExit env ptyId e sg s) = (None, None, False)"
    "registry ptyId (sshExit env ptyId e sg s) = (None, None, False)"
    "registry ptyId (sshDirectExit env ptyId e sg s) = (None, None, False)"
    by (simp_all add: respawnedShellExit_def sshExit_def sshDirectExit_def removePtyRecord_def
        registry_def Let_def)
  from closed unguarded show ?thesis
    by (intro conjI)
qed

text \<open>
  What does hold when a direct CLI process exits and no replacement is produced: the
  record of the id and its listener flag are removed, and the owner binding is as it was.
\<close>

lemma direct_exit_without_replacement:
  assumes "ptys s ptyId = Some proc"
    and "exitHandlers s proc = [StartDirectExit ptyId False]"
    and "owners s ptyId = None \<or> sp \<noteq> spawn_ok"
  shows "registry ptyId (directCliExit sp env proc ptyId e sg s) = (None, owners s ptyId, False)"
proof -
  have cur: "ptys s ptyId = Some proc \<or> ptys s ptyId = None"
    using assms(1) by simp
  have run: "emitExit env proc e sg s = startDirectExit proc False env ptyId e sg s"
    using assms(2) by (simp add: emitExit_def)
  show ?thesis
  proof (cases "owners s ptyId")
    case None
    then show ?thesis
      by (simp add: directCliExit_def respawn_spawn_no_owner onDirectCliExit_resume_def run
          registry_def startDirectExit_current [OF cur])
  next
    case (Some wc)
    with assms(3) have "sp \<noteq> spawn_ok"
      by simp
    with Some have "onDirectCliExit_spawn sp ptyId s = (Some (wc, None), s)"
      by (rule respawn_spawn_fails)
    then show ?thesis
      using Some
      by (simp add: directCliExit_def onDirectCliExit_resume_def run registry_def killPty_def
          startDirectExit_current [OF cur])
  qed
qed

text \<open>
  Claim C4 holds when no owner is bound, and fails when the replacement spawn fails: the
  direct CLI session of an owner exits, \<^verbatim>\<open>startPty\<close> gives no process (or throws), and the
  record and the listener flag of the id are removed while its owner binding remains.
\<close>

theorem respawn_failure_keeps_owner:
  "registry exampleId
     (directCliExit spawn_null testEnv 0 exampleId (Some 130) None (directSession exampleId 7))
     = (None, Some 7, False) \<and>
   registry exampleId
     (directCliExit spawn_throws testEnv 0 exampleId (Some 130) None (directSession exampleId 7))
     = (None, Some 7, False) \<and>
   registry exampleId
     (directCliExit spawn_ok testEnv 0 exampleId (Some 130) None
        ((directSession exampleId 7)\<lparr>owners := Map.empty\<rparr>))
     = (None, None, False)"
  by (simp add: run_defs example_defs)

text \<open>
  Claim C10. The exit callback of a respawned shell sends the buffered output and the exit
  event to the owner, if there is one that is not destroyed, and removes the record, the
  owner binding and the listener flag of the id; it adds no telemetry event and no
  notification and touches neither the finalized ids nor the run timers. After a
  successful respawn this callback is the one attached to the new process, so the exit of
  the replacement shell runs it and nothing else.
\<close>

theorem respawned_shell_exit_no_finalize:
  "telemetry (respawnedShellExit env ptyId e sg s) = telemetry s \<and>
   notifications (respawnedShellExit env ptyId e sg s) = notifications s \<and>
   finalizedPtys (respawnedShellExit env ptyId e sg s) = finalizedPtys s \<and>
   providerPtyTimers (respawnedShellExit env ptyId e sg s) = providerPtyTimers s \<and>
   registry ptyId (respawnedShellExit env ptyId e sg s) = (None, None, False) \<and>
   (owners s ptyId = Some wc \<and> \<not> isDestroyed env wc \<longrightarrow>
      sent (respawnedShellExit env ptyId e sg s) =
        sent (flushPtyData env ptyId s) @ [(wc, ''pty:exit:'' @ ptyId, ExitInfo e sg)]) \<and>
   (owners s ptyId = Some wc \<and> exitHandlers s (nextHandle s) = [] \<longrightarrow>
      ptys (onDirectCliExit spawn_ok env' ptyId s) ptyId = Some (nextHandle s) \<and>
      exitHandlers (onDirectCliExit spawn_ok env' ptyId s) (nextHandle s)
        = [RespawnedShellExit ptyId] \<and>
      emitExit env (nextHandle s) e sg (onDirectCliExit spawn_ok env' ptyId s)
        = respawnedShellExit env ptyId e sg (onDirectCliExit spawn_ok env' ptyId s))"
proof -
  have 1: "telemetry (respawnedShellExit env ptyId e sg s) = telemetry s"
    "notifications (respawnedShellExit env ptyId e sg s) = notifications s"
    "finalizedPtys (respawnedShellExit env ptyId e sg s) = finalizedPtys s"
    "providerPtyTimers (respawnedShellExit env ptyId e sg s) = providerPtyTimers s"
    "registry ptyId (respawnedShellExit env ptyId e sg s) = (None, None, False)"
    by (simp_all add: respawnedShellExit_def removePtyRecord_def registry_def Let_def)
  have 2: "owners s ptyId = Some wc \<and> \<not> isDestroyed env wc \<longrightarrow>
      sent (respawnedShellExit env ptyId e sg s) =
        sent (flushPtyData env ptyId s) @ [(wc, ''pty:exit:'' @ ptyId, ExitInfo e sg)]"
    by (simp add: respawnedShellExit_def removePtyRecord_def Let_def safeSendToOwner_def)
  have 3: "owners s ptyId = Some wc \<and> exitHandlers s (nextHandle s) = [] \<longrightarrow>
      ptys (onDirectCliExit spawn_ok env' ptyId s) ptyId = Some (nextHandle s) \<and>
      exitHandlers (onDirectCliExit spawn_ok env' ptyId s) (nextHandle s)
        = [RespawnedShellExit ptyId] \<and>
      emitExit env (nextHandle s) e sg (onDirectCliExit spawn_ok env' ptyId s)
        = respawnedShellExit env ptyId e sg (onDirectCliExit spawn_ok env' ptyId s)"
    by (simp add: onDirectCliExit_def respawn_spawn_ok respawn_resume_ok emitExit_def)
  from 1 2 3 show ?thesis
    by (intro conjI)
qed

theorem respawned_shell_exit_no_finalize_witness:
  "owners (directSession exampleId 7) exampleId = Some 7 \<and>
   exitHandlers (directSession exampleId 7) (nextHandle (directSession exampleId 7)) = [] \<and>
   \<not> isDestroyed testEnv 7 \<and>
   exitHandlers (onDirectCliExit spawn_ok testEnv exampleId (directSession exampleId 7)) 1
     = [RespawnedShellExit exampleId] \<and>
   owners (directCliExit spawn_ok testEnv 0 exampleId (Some 130) None (directSession exampleId 7))
     exampleId = Some 7 \<and>
   telemetry (emitExit testEnv 1 (Some 0) None
      (maybeMarkProviderStart testEnv exampleId None
         (directCliExit spawn_ok testEnv 0 exampleId (Some 130) None (directSession exampleId 7))))
     = [agent_run_start ''codex'', agent_run_finish ''codex'' outcome_error (Some 500),
        agent_run_start ''codex''] \<and>
   notifications (emitExit testEnv 1 (Some 0) None
      (maybeMarkProviderStart testEnv exampleId None
         (directCliExit spawn_ok testEnv 0 exampleId (Some 130) None (directSession exampleId 7))))
     = [] \<and>
   registry exampleId (emitExit testEnv 1 (Some 0) None
      (maybeMarkProviderStart testEnv exampleId None
         (directCliExit spawn_ok testEnv 0 exampleId (Some 130) None (directSession exampleId 7))))
     = (None, None, False) \<and>
   sent (respawnedShellExit testEnv exampleId (Some 0) None
      (directCliExit spawn_ok testEnv 0 exampleId (Some 130) None (directSession exampleId 7)))
     = [(9, ''pty:started'', StartedInfo exampleId),
        (7, ''pty:started'', StartedInfo exampleId),
        (7, ''pty:exit:'' @ exampleId, ExitInfo (Some 0) None)]"
proof -
  let ?s = "directSession exampleId 7"
  let ?r = "directCliExit spawn_ok testEnv 0 exampleId (Some 130) None ?s"
  let ?u = "maybeMarkProviderStart testEnv exampleId None ?r"
  have h: "owners ?s exampleId = Some 7" "exitHandlers ?s (nextHandle ?s) = []"
    "\<not> isDestroyed testEnv 7"
    by (simp_all add: example_defs)
  have r: "owners ?r exampleId = Some 7" "exitHandlers ?r 1 = [RespawnedShellExit exampleId]"
    "sent (flushPtyData testEnv exampleId ?r) =
       [(9, ''pty:started'', StartedInfo exampleId), (7, ''pty:started'', StartedInfo exampleId)]"
    by (simp_all add: run_defs example_defs)
  have u: "exitHandlers ?u 1 = [RespawnedShellExit exampleId]"
    "telemetry ?u = [agent_run_start ''codex'', agent_run_finish ''codex'' outcome_error (Some 500),
        agent_run_start ''codex'']"
    "notifications ?u = []"
    by (simp_all add: run_defs example_defs maybeMarkProviderStart_def startTimer_def)
  have e: "emitExit testEnv 1 (Some 0) None ?u = respawnedShellExit testEnv exampleId (Some 0) None ?u"
    using u(1) by (simp add: emitExit_def)
  note a = respawned_shell_exit_no_finalize [of testEnv exampleId "Some 0" None ?u]
  note b = respawned_shell_exit_no_finalize [of testEnv exampleId "Some 0" None ?r 7]
  note c = respawned_shell_exit_no_finalize [of testEnv exampleId "Some 0" None ?s 7 testEnv]
  from c h have o: "exitHandlers (onDirectCliExit spawn_ok testEnv exampleId ?s) (nextHandle ?s)
      = [RespawnedShellExit exampleId]"
    by blast
  have n: "nextHandle ?s = 1"
    by (simp add: example_defs)
  from a have "telemetry (emitExit testEnv 1 (Some 0) None ?u) = telemetry ?u"
    "notifications (emitExit testEnv 1 (Some 0) None ?u) = notifications ?u"
    "registry exampleId (emitExit testEnv 1 (Some 0) None ?u) = (None, None, False)"
    unfolding e by blast+
  moreover from b r(1) h(3)
  have "sent (respawnedShellExit testEnv exampleId (Some 0) None ?r) =
      sent (flushPtyData testEnv exampleId ?r) @
        [(7, ''pty:exit:'' @ exampleId, ExitInfo (Some 0) None)]"
    by blast
  ultimately show ?thesis
    using h r u o n by simp
qed

section \<open>Properties of the command lines\<close>

lemma sh_quoted_escape:
  "sh True (Some w) (escapeSingleQuotes s @ squote # rest) = sh False (Some (w @ s)) rest"
proof (induction s arbitrary: w)
  case Nil
  then show ?case by (simp add: escapeSingleQuotes_def)
next
  case (Cons c s)
  have nl: "squote \<noteq> CHR 0x0A" "squote \<noteq> bslash" "bslash \<noteq> squote" "\<not> isBlank bslash"
    by (simp_all add: squote_def bslash_def isBlank_def)
  show ?case
  proof (cases "c = squote")
    case True
    have "escapeSingleQuotes (c # s) @ squote # rest
        = squote # bslash # squote # squote # escapeSingleQuotes s @ squote # rest"
      using True by (simp add: escapeSingleQuotes_def)
    then show ?thesis
      using True nl Cons.IH [of "w @ [squote]"] by simp
  next
    case False
    have "escapeSingleQuotes (c # s) @ squote # rest = c # escapeSingleQuotes s @ squote # rest"
      using False by (simp add: escapeSingleQuotes_def)
    then show ?thesis
      using False Cons.IH [of "w @ [c]"] by simp
  qed
qed

lemma sh_quoteShellArg:
  "sh False None (quoteShellArg t @ rest) = sh False (Some t) rest"
  using sh_quoted_escape [of "[]" t rest] by (simp add: quoteShellArg_def)

lemma sh_open_quote:
  "sh False None (squote # escapeSingleQuotes t @ squote # rest) = sh False (Some t) rest"
  using sh_quoted_escape [of "[]" t rest] by simp

lemma sh_blank_word:
  "sh False (Some w) (CHR '' '' # rest) = map_option (Cons w) (sh False None rest)"
  by (simp add: squote_def isBlank_def)

lemma shWords_quoteShellArg: "shWords (quoteShellArg t) = Some [t]"
  using sh_quoteShellArg [of t "[]"] by (simp add: shWords_def)

lemma sh_cd: "sh False None (''cd '' @ rest) = map_option (Cons ''cd'') (sh False None rest)"
  by (simp add: squote_def bslash_def isBlank_def isShSpecial_def)

lemma sh_sh_c:
  "sh False None (''sh -c '' @ rest) = map_option (\<lambda>ws. ''sh'' # ''-c'' # ws) (sh False None rest)"
  by (simp add: squote_def bslash_def isBlank_def isShSpecial_def option.map_comp comp_def)

lemma shWords_join_quoted:
  "shWords (join '' '' (map quoteShellArg ws)) = Some ws"
proof (induction ws rule: induct_list012)
  case 1
  then show ?case by (simp add: shWords_def)
next
  case (2 x)
  show ?case
    using sh_quoteShellArg [of x "[]"] by (simp add: shWords_def)
next
  case (3 x y ys)
  have "shWords (join '' '' (map quoteShellArg (x # y # ys)))
      = sh False None (quoteShellArg x @ CHR '' '' # join '' '' (map quoteShellArg (y # ys)))"
    by (simp add: shWords_def)
  also have "\<dots> = map_option (Cons x) (shWords (join '' '' (map quoteShellArg (y # ys))))"
    unfolding sh_quoteShellArg sh_blank_word shWords_def ..
  finally show ?case
    using 3 by simp
qed

lemma wsl_parts_defined:
  assumes "isWslPath dir"
  obtains distro posixCwd where "getWslDistro dir = Some distro"
    and "toWslPosixPath dir = Inr posixCwd"
  using assms
  by (auto simp: isWslPath_def getWslDistro_def toWslPosixPath_def Let_def split: prod.splits)

text \<open>
  Under the word recognition of the POSIX shell, a quoted token is one word, the token
  itself, whatever characters it contains. So the lines typed into a remote session are
  read as \<^verbatim>\<open>cd\<close> with the directory and as \<^verbatim>\<open>sh -c\<close> with the script, the command of the
  remote provider invocation is read as exactly its words, and the shell part of the
  command line of \<^verbatim>\<open>wslExec\<close> is read as \<^verbatim>\<open>sh -c\<close> with the command.
\<close>

lemma quoting_survives_shell_parsing:
  "shWords (quoteShellArg t) = Some [t] \<and>
   shWords (''cd '' @ quoteShellArg d) = Some [''cd'', d] \<and>
   shWords (''sh -c '' @ quoteShellArg script) = Some [''sh'', ''-c'', script] \<and>
   (d \<noteq> [] \<longrightarrow>
      buildRemoteInitKeystrokes (Some d) (Some p) =
        ''cd '' @ quoteShellArg d @ [CHR 0x0A] @ ''sh -c '' @ quoteShellArg (shScript p) @ [CHR 0x0A]) \<and>
   shWords (cmd (buildRemoteProviderInvocation providerId aa ip rs rc fb)) =
     Some (cliCommandParts providerId rc fb @ remoteCliArgs rs aa ip rc fb) \<and>
   shWords (wslShellPart command) = Some [''sh'', ''-c'', command] \<and>
   (isWslPath dir \<longrightarrow>
      (\<exists>distro posixCwd.
         getWslDistro dir = Some distro \<and> toWslPosixPath dir = Inr posixCwd \<and>
         wslExecCommand command (Some dir) =
           ''wsl.exe -d '' @ distro @ '' --cd '' @ posixCwd @ '' -- '' @ wslShellPart command))"
proof -
  have 1: "shWords (quoteShellArg t) = Some [t]"
    by (rule shWords_quoteShellArg)
  have 2: "shWords (''cd '' @ quoteShellArg d) = Some [''cd'', d]"
    unfolding shWords_def sh_cd using sh_quoteShellArg [of d "[]"] by simp
  have 3: "shWords (''sh -c '' @ quoteShellArg script) = Some [''sh'', ''-c'', script]"
    unfolding shWords_def sh_sh_c using sh_quoteShellArg [of script "[]"] by simp
  have 4: "d \<noteq> [] \<longrightarrow>
      buildRemoteInitKeystrokes (Some d) (Some p) =
        ''cd '' @ quoteShellArg d @ [CHR 0x0A] @ ''sh -c '' @ quoteShellArg (shScript p) @ [CHR 0x0A]"
    by (simp add: buildRemoteInitKeystrokes_def truthy_def Let_def)
  have 5: "shWords (cmd (buildRemoteProviderInvocation providerId aa ip rs rc fb)) =
     Some (cliCommandParts providerId rc fb @ remoteCliArgs rs aa ip rc fb)"
    unfolding buildRemoteProviderInvocation_def Let_def
    by (simp only: RemoteProvider.simps shWords_join_quoted)
  have 6: "shWords (wslShellPart command) = Some [''sh'', ''-c'', command]"
    unfolding shWords_def wslShellPart_def sh_sh_c using sh_open_quote [of command "[]"] by simp
  have 7: "isWslPath dir \<longrightarrow>
      (\<exists>distro posixCwd.
         getWslDistro dir = Some distro \<and> toWslPosixPath dir = Inr posixCwd \<and>
         wslExecCommand command (Some dir) =
           ''wsl.exe -d '' @ distro @ '' --cd '' @ posixCwd @ '' -- '' @ wslShellPart command)"
  proof
    assume w: "isWslPath dir"
    then obtain distro posixCwd where dp: "getWslDistro dir = Some distro"
      "toWslPosixPath dir = Inr posixCwd"
      by (rule wsl_parts_defined)
    have "dir \<noteq> []"
      using w by (auto simp: isWslPath_def WSL_UNC_RE_def)
    with w dp show "\<exists>distro posixCwd.
         getWslDistro dir = Some distro \<and> toWslPosixPath dir = Inr posixCwd \<and>
         wslExecCommand command (Some dir) =
           ''wsl.exe -d '' @ distro @ '' --cd '' @ posixCwd @ '' -- '' @ wslShellPart command"
      by (simp add: wslExecCommand_def)
  qed
  from 1 2 3 4 5 6 7 show ?thesis
    by (intro conjI)
qed

text \<open>For example, with a token that holds a quote, a semicolon and a dollar sign, and
  with the command of the test \<^verbatim>\<open>codex-remote;echo\<close>:\<close>

lemma quoting_survives_shell_parsing_example:
  "''/tmp/task'' \<noteq> [] \<and> isWslPath ''//wsl$/Ubuntu/home/u'' \<and>
   quoteShellArg (''it'' @ [squote] @ ''s; rm -rf $HOME'')
     = [squote] @ ''it'' @ [squote, bslash, squote, squote] @ ''s; rm -rf $HOME'' @ [squote] \<and>
   shWords ([squote] @ ''it'' @ [squote, bslash, squote, squote] @ ''s; rm -rf $HOME'' @ [squote])
     = Some [''it'' @ [squote] @ ''s; rm -rf $HOME''] \<and>
   shWords (''cd it; rm -rf $HOME'') = None \<and>
   buildRemoteInitKeystrokes (Some ''/tmp/task'')
       (Some \<lparr>cli = ''codex'', cmd = quoteShellArg ''codex'', installCommand = None\<rparr>)
     = ''cd '' @ [squote] @ ''/tmp/task'' @ [squote, CHR 0x0A] @ ''sh -c '' @
       quoteShellArg (shScript \<lparr>cli = ''codex'', cmd = quoteShellArg ''codex'',
                                installCommand = None\<rparr>) @ [CHR 0x0A] \<and>
   wslExecCommand ''git status'' (Some ''//wsl$/Ubuntu/home/u'')
     = ''wsl.exe -d Ubuntu --cd /home/u -- sh -c '' @ [squote] @ ''git status'' @ [squote]"
proof -
  let ?t = "''it'' @ [squote] @ ''s; rm -rf $HOME''"
  let ?p = "\<lparr>cli = ''codex'', cmd = quoteShellArg ''codex'', installCommand = None\<rparr>"
  have h: "''/tmp/task'' \<noteq> []" "isWslPath ''//wsl$/Ubuntu/home/u''"
    by code_simp+
  have q: "quoteShellArg ?t
      = [squote] @ ''it'' @ [squote, bslash, squote, squote] @ ''s; rm -rf $HOME'' @ [squote]"
    "quoteShellArg ''/tmp/task'' = [squote] @ ''/tmp/task'' @ [squote]"
    "escapeSingleQuotes ''git status'' = ''git status''"
    by (simp_all add: quoteShellArg_def escapeSingleQuotes_def squote_def)
  have n: "shWords (''cd it; rm -rf $HOME'') = None"
    by (simp add: shWords_def squote_def bslash_def isBlank_def isShSpecial_def)
  have d: "getWslDistro ''//wsl$/Ubuntu/home/u'' = Some ''Ubuntu''"
    "toWslPosixPath ''//wsl$/Ubuntu/home/u'' = Inr ''/home/u''"
    by code_simp+
  note a = quoting_survives_shell_parsing [of ?t "''/tmp/task''" "[]" ?p "[]" False None False
      None None "''git status''" "''//wsl$/Ubuntu/home/u''"]
  from a have 1: "shWords (quoteShellArg ?t) = Some [?t]"
    by blast
  from a h(1) have 2: "buildRemoteInitKeystrokes (Some ''/tmp/task'') (Some ?p) =
      ''cd '' @ quoteShellArg ''/tmp/task'' @ [CHR 0x0A] @ ''sh -c '' @
      quoteShellArg (shScript ?p) @ [CHR 0x0A]"
    by blast
  from a h(2) have 3: "wslExecCommand ''git status'' (Some ''//wsl$/Ubuntu/home/u'') =
      ''wsl.exe -d '' @ ''Ubuntu'' @ '' --cd '' @ ''/home/u'' @ '' -- '' @ wslShellPart ''git status''"
    unfolding d by blast
  have w3: "wslExecCommand ''git status'' (Some ''//wsl$/Ubuntu/home/u'')
     = ''wsl.exe -d Ubuntu --cd /home/u -- sh -c '' @ [squote] @ ''git status'' @ [squote]"
    unfolding 3 wslShellPart_def q by simp
  have k2: "buildRemoteInitKeystrokes (Some ''/tmp/task'') (Some ?p)
     = ''cd '' @ [squote] @ ''/tmp/task'' @ [squote, CHR 0x0A] @ ''sh -c '' @
       quoteShellArg (shScript ?p) @ [CHR 0x0A]"
    unfolding 2 q by simp
  from h q(1) 1 [unfolded q(1)] n k2 w3 show ?thesis
    by (intro conjI)
qed

lemma remote_script_example:
  "shScript \<lparr>cli = ''codex-remote;echo'', cmd = quoteShellArg ''codex-remote;echo'',
             installCommand = Some ''npm i -g codex''\<rparr> =
     ''if command -v '' @ [squote] @ ''codex-remote;echo'' @ [squote] @
     '' >/dev/null 2>&1; then exec '' @ [squote] @ ''codex-remote;echo'' @ [squote] @
     ''; else printf '' @ [squote] @ ''%s'' @ [bslash] @ ''n'' @ [squote] @ '' '' @ [squote] @
     ''emdash: codex-remote;echo not found on remote. Install: npm i -g codex'' @ [squote] @
     ''; fi'' \<and>
   shWords (''command -v '' @ quoteShellArg ''codex-remote;echo'')
     = Some [''command'', ''-v'', ''codex-remote;echo''] \<and>
   shWords (''command -v codex-remote;echo'') = None"
  by code_simp

text \<open>
  Claim C9 fails for \<^verbatim>\<open>wslExec\<close>: the distro and the working directory, both taken from the
  path of the project, are put into the command line as they are. With a space in the
  directory the shell reads \<^verbatim>\<open>--cd\<close> with a part of the directory and a further word, as it
  reads two words for a distro with a space; with a semicolon in the directory the line is
  no longer one command. The command of the same line is escaped and is read back in one
  piece.
\<close>

theorem wslExec_directory_unquoted:
  "toWslPosixPath ''//wsl$/Ubuntu/home/my project'' = Inr ''/home/my project'' \<and>
   wslExecCommand ''git status'' (Some ''//wsl$/Ubuntu/home/my project'') =
     ''wsl.exe -d Ubuntu --cd /home/my project -- sh -c '' @ [squote] @ ''git status'' @ [squote] \<and>
   shWords (wslExecCommand ''git status'' (Some ''//wsl$/Ubuntu/home/my project'')) =
     Some [''wsl.exe'', ''-d'', ''Ubuntu'', ''--cd'', ''/home/my'', ''project'', ''--'',
           ''sh'', ''-c'', ''git status''] \<and>
   shWords (wslExecCommand ''git status'' (Some ''//wsl$/My Distro/home/u'')) =
     Some [''wsl.exe'', ''-d'', ''My'', ''Distro'', ''--cd'', ''/home/u'', ''--'',
           ''sh'', ''-c'', ''git status''] \<and>
   wslExecCommand ''git status'' (Some ''//wsl$/Ubuntu/home/a;reboot'') =
     ''wsl.exe -d Ubuntu --cd /home/a;reboot -- sh -c '' @ [squote] @ ''git status'' @ [squote] \<and>
   shWords (wslExecCommand ''git status'' (Some ''//wsl$/Ubuntu/home/a;reboot'')) = None \<and>
   shWords (wslExecCommand ''git status'' (Some ''//wsl$/Ubuntu/home/u'')) =
     Some [''wsl.exe'', ''-d'', ''Ubuntu'', ''--cd'', ''/home/u'', ''--'',
           ''sh'', ''-c'', ''git status'']"
  by code_simp

lemma args_concat:
  "buildProviderCliArgs opts =
     (if resume opts \<and> truthy (resumeFlag opts) then flagTokens (resumeFlag opts) else []) @
     (case defaultArgs opts of None \<Rightarrow> [] | Some ds \<Rightarrow> ds) @
     (if autoApprove opts \<and> truthy (autoApproveFlag opts)
      then flagTokens (autoApproveFlag opts) else []) @
     (case initialPrompt opts of
        None \<Rightarrow> []
      | Some prompt \<Rightarrow>
          if useKeystrokeInjection opts then []
          else flagTokens (initialPromptFlag opts) @ [prompt])"
  by (simp add: buildProviderCliArgs_def resumePart_def defaultPart_def autoApprovePart_def
      promptPart_def split: option.splits)

lemma flag_words:
  "parseShellArgs ''resume --last'' = [''resume'', ''--last'']"
  "parseShellArgs ''--yes'' = [''--yes'']"
  by code_simp+

text \<open>
  Claim C8. The argument sequence is the concatenation, in this order, of the words of the
  resume flag (when resuming and the flag is set), the default args, the words of the
  auto-approve flag (when requested and the flag is set) and, when a prompt is given and
  the provider does not use keystroke injection, the words of the initial-prompt flag and
  the prompt text. With keystroke injection there is no prompt part; without it a given
  prompt is the last token, in one piece. With resume and the resume flag
  \<^verbatim>\<open>resume --last\<close>, auto-approve and the flag \<^verbatim>\<open>--yes\<close>, the prompt \<^verbatim>\<open>hi there\<close> and no
  keystroke injection, the sequence is \<^verbatim>\<open>resume --last --yes\<close>, the words of the
  initial-prompt flag if the provider has one, and the prompt text as the last token.
  \<^verbatim>\<open>buildRemoteProviderInvocation\<close> builds this sequence from the flags of the resolved
  configuration, or else of the provider, and puts it after the words of the command,
  every word quoted: the shell reads the command line as these words in this order.
\<close>

theorem provider_args_fixed_order:
  "buildProviderCliArgs opts =
     (if resume opts \<and> truthy (resumeFlag opts) then flagTokens (resumeFlag opts) else []) @
     (case defaultArgs opts of None \<Rightarrow> [] | Some ds \<Rightarrow> ds) @
     (if autoApprove opts \<and> truthy (autoApproveFlag opts)
      then flagTokens (autoApproveFlag opts) else []) @
     (case initialPrompt opts of
        None \<Rightarrow> []
      | Some prompt \<Rightarrow>
          if useKeystrokeInjection opts then []
          else flagTokens (initialPromptFlag opts) @ [prompt]) \<and>
   (useKeystrokeInjection opts \<longrightarrow> promptPart opts = []) \<and>
   (\<not> useKeystrokeInjection opts \<and> initialPrompt opts = Some prompt \<longrightarrow>
      last (buildProviderCliArgs opts) = prompt) \<and>
   buildProviderCliArgs
     \<lparr>resume = True, resumeFlag = Some ''resume --last'', defaultArgs = None, extraArgs = extra,
      autoApprove = True, autoApproveFlag = Some ''--yes'', initialPrompt = Some ''hi there'',
      initialPromptFlag = flag, useKeystrokeInjection = False\<rparr>
     = [''resume'', ''--last'', ''--yes''] @ flagTokens flag @ [''hi there''] \<and>
   remoteCliArgs rs aa ip rc fb =
     (if rs \<and> truthy (resolved rc fb rc_resumeFlag p_resumeFlag)
      then flagTokens (resolved rc fb rc_resumeFlag p_resumeFlag) else []) @
     (case resolved rc fb rc_defaultArgs p_defaultArgs of None \<Rightarrow> [] | Some ds \<Rightarrow> ds) @
     (if aa \<and> truthy (resolved rc fb rc_autoApproveFlag p_autoApproveFlag)
      then flagTokens (resolved rc fb rc_autoApproveFlag p_autoApproveFlag) else []) @
     (case ip of
        None \<Rightarrow> []
      | Some prompt \<Rightarrow>
          if (case (case (case rc of None \<Rightarrow> None | Some c \<Rightarrow> rc_provider c) of
                      Some p \<Rightarrow> Some p
                    | None \<Rightarrow> fb) of
                None \<Rightarrow> False
              | Some p \<Rightarrow> p_useKeystrokeInjection p)
          then []
          else flagTokens (resolved rc fb rc_initialPromptFlag p_initialPromptFlag) @ [prompt]) \<and>
   cmd (buildRemoteProviderInvocation providerId aa ip rs rc fb) =
     join '' '' (map quoteShellArg (cliCommandParts providerId rc fb @ remoteCliArgs rs aa ip rc fb)) \<and>
   shWords (cmd (buildRemoteProviderInvocation providerId aa ip rs rc fb)) =
     Some (cliCommandParts providerId rc fb @ remoteCliArgs rs aa ip rc fb)"
proof -
  note 1 = args_concat [of opts]
  have 2: "useKeystrokeInjection opts \<longrightarrow> promptPart opts = []"
    by (simp add: promptPart_def split: option.splits)
  have 3: "\<not> useKeystrokeInjection opts \<and> initialPrompt opts = Some prompt \<longrightarrow>
      last (buildProviderCliArgs opts) = prompt"
    unfolding args_concat by simp
  have 4: "buildProviderCliArgs
     \<lparr>resume = True, resumeFlag = Some ''resume --last'', defaultArgs = None, extraArgs = extra,
      autoApprove = True, autoApproveFlag = Some ''--yes'', initialPrompt = Some ''hi there'',
      initialPromptFlag = flag, useKeystrokeInjection = False\<rparr>
     = [''resume'', ''--last'', ''--yes''] @ flagTokens flag @ [''hi there'']"
    unfolding args_concat by (simp add: truthy_def flagTokens_def flag_words)
  have 5: "remoteCliArgs rs aa ip rc fb =
     (if rs \<and> truthy (resolved rc fb rc_resumeFlag p_resumeFlag)
      then flagTokens (resolved rc fb rc_resumeFlag p_resumeFlag) else []) @
     (case resolved rc fb rc_defaultArgs p_defaultArgs of None \<Rightarrow> [] | Some ds \<Rightarrow> ds) @
     (if aa \<and> truthy (resolved rc fb rc_autoApproveFlag p_autoApproveFlag)
      then flagTokens (resolved rc fb rc_autoApproveFlag p_autoApproveFlag) else []) @
     (case ip of
        None \<Rightarrow> []
      | Some prompt \<Rightarrow>
          if (case (case (case rc of None \<Rightarrow> None | Some c \<Rightarrow> rc_provider c) of
                      Some p \<Rightarrow> Some p
                    | None \<Rightarrow> fb) of
                None \<Rightarrow> False
              | Some p \<Rightarrow> p_useKeystrokeInjection p)
          then []
          else flagTokens (resolved rc fb rc_initialPromptFlag p_initialPromptFlag) @ [prompt])"
    unfolding remoteCliArgs_def Let_def args_concat by (cases ip) simp_all
  have 6: "cmd (buildRemoteProviderInvocation providerId aa ip rs rc fb) =
     join '' '' (map quoteShellArg (cliCommandParts providerId rc fb @ remoteCliArgs rs aa ip rc fb))"
    unfolding buildRemoteProviderInvocation_def Let_def by (simp only: RemoteProvider.simps)
  have 7: "shWords (cmd (buildRemoteProviderInvocation providerId aa ip rs rc fb)) =
     Some (cliCommandParts providerId rc fb @ remoteCliArgs rs aa ip rc fb)"
    unfolding 6 by (rule shWords_join_quoted)
  from 1 2 3 4 5 6 7 show ?thesis
    by (intro conjI)
qed

theorem provider_args_fixed_order_witness:
  "\<not> useKeystrokeInjection
     \<lparr>resume = True, resumeFlag = Some ''resume --last'', defaultArgs = None, extraArgs = None,
      autoApprove = True, autoApproveFlag = Some ''--yes'', initialPrompt = Some ''hi there'',
      initialPromptFlag = None, useKeystrokeInjection = False\<rparr> \<and>
   buildProviderCliArgs
     \<lparr>resume = True, resumeFlag = Some ''resume --last'', defaultArgs = None, extraArgs = None,
      autoApprove = True, autoApproveFlag = Some ''--yes'', initialPrompt = Some ''hi there'',
      initialPromptFlag = None, useKeystrokeInjection = False\<rparr>
     = [''resume'', ''--last'', ''--yes'', ''hi there''] \<and>
   last (buildProviderCliArgs
     \<lparr>resume = True, resumeFlag = Some ''resume --last'', defaultArgs = None, extraArgs = None,
      autoApprove = True, autoApproveFlag = Some ''--yes'', initialPrompt = Some ''hi there'',
      initialPromptFlag = None, useKeystrokeInjection = False\<rparr>) = ''hi there'' \<and>
   useKeystrokeInjection
     \<lparr>resume = True, resumeFlag = Some ''resume --last'',
      defaultArgs = Some [''--model'', ''gpt-5''], extraArgs = None,
      autoApprove = True, autoApproveFlag = Some ''--yes'', initialPrompt = Some ''hi there'',
      initialPromptFlag = Some ''-p'', useKeystrokeInjection = True\<rparr> \<and>
   buildProviderCliArgs
     \<lparr>resume = True, resumeFlag = Some ''resume --last'',
      defaultArgs = Some [''--model'', ''gpt-5''], extraArgs = None,
      autoApprove = True, autoApproveFlag = Some ''--yes'', initialPrompt = Some ''hi there'',
      initialPromptFlag = Some ''-p'', useKeystrokeInjection = True\<rparr>
     = [''resume'', ''--last'', ''--model'', ''gpt-5'', ''--yes''] \<and>
   remoteCliArgs True True (Some ''hi there'') None
     (Some \<lparr>p_cli = None, p_resumeFlag = Some ''resume --last'', p_defaultArgs = None,
            p_autoApproveFlag = Some ''--yes'', p_initialPromptFlag = None,
            p_useKeystrokeInjection = False, p_installCommand = None\<rparr>)
     = [''resume'', ''--last'', ''--yes'', ''hi there''] \<and>
   shWords (cmd (buildRemoteProviderInvocation ''Codex'' True (Some ''hi there'') True None
     (Some \<lparr>p_cli = None, p_resumeFlag = Some ''resume --last'', p_defaultArgs = None,
            p_autoApproveFlag = Some ''--yes'', p_initialPromptFlag = None,
            p_useKeystrokeInjection = False, p_installCommand = None\<rparr>)))
     = Some [''codex'', ''resume'', ''--last'', ''--yes'', ''hi there'']"
proof -
  let ?a = "\<lparr>resume = True, resumeFlag = Some ''resume --last'', defaultArgs = None,
      extraArgs = None,
      autoApprove = True, autoApproveFlag = Some ''--yes'', initialPrompt = Some ''hi there'',
      initialPromptFlag = None, useKeystrokeInjection = False\<rparr>"
  let ?b = "\<lparr>resume = True, resumeFlag = Some ''resume --last'',
      defaultArgs = Some [''--model'', ''gpt-5''], extraArgs = None,
      autoApprove = True, autoApproveFlag = Some ''--yes'', initialPrompt = Some ''hi there'',
      initialPromptFlag = Some ''-p'', useKeystrokeInjection = True\<rparr>"
  let ?p = "\<lparr>p_cli = None, p_resumeFlag = Some ''resume --last'', p_defaultArgs = None,
      p_autoApproveFlag = Some ''--yes'', p_initialPromptFlag = None,
      p_useKeystrokeInjection = False, p_installCommand = None\<rparr>"
  have h1: "\<not> useKeystrokeInjection ?a" "initialPrompt ?a = Some ''hi there''"
    by simp_all
  have h2: "useKeystrokeInjection ?b"
    by simp
  note a = provider_args_fixed_order [of ?a "''hi there''" None None True True "Some ''hi there''"
      None "Some ?p" "''Codex''"]
  note b = provider_args_fixed_order [of ?b]
  from a have "buildProviderCliArgs ?a
      = [''resume'', ''--last'', ''--yes''] @ flagTokens None @ [''hi there'']"
    by blast
  then have 1: "buildProviderCliArgs ?a = [''resume'', ''--last'', ''--yes'', ''hi there'']"
    by (simp add: flagTokens_def)
  from a h1 have 2: "last (buildProviderCliArgs ?a) = ''hi there''"
    by blast
  from b h2 have "promptPart ?b = []"
    by blast
  moreover from b have "buildProviderCliArgs ?b =
     (if resume ?b \<and> truthy (resumeFlag ?b) then flagTokens (resumeFlag ?b) else []) @
     (case defaultArgs ?b of None \<Rightarrow> [] | Some ds \<Rightarrow> ds) @
     (if autoApprove ?b \<and> truthy (autoApproveFlag ?b)
      then flagTokens (autoApproveFlag ?b) else []) @
     (case initialPrompt ?b of
        None \<Rightarrow> []
      | Some prompt \<Rightarrow>
          if useKeystrokeInjection ?b then []
          else flagTokens (initialPromptFlag ?b) @ [prompt])"
    by blast
  ultimately have 3: "buildProviderCliArgs ?b
      = [''resume'', ''--last'', ''--model'', ''gpt-5'', ''--yes'']"
    by (simp add: truthy_def flagTokens_def flag_words)
  have parts: "cliCommandParts ''Codex'' None (Some ?p) = [''codex'']"
    by code_simp
  note remote = a [THEN conjunct2, THEN conjunct2, THEN conjunct2, THEN conjunct2]
  from remote [THEN conjunct1]
  have 4: "remoteCliArgs True True (Some ''hi there'') None (Some ?p)
      = [''resume'', ''--last'', ''--yes'', ''hi there'']"
    by (simp add: resolved_def truthy_def flagTokens_def flag_words)
  from remote [THEN conjunct2, THEN conjunct2]
  have 5: "shWords (cmd (buildRemoteProviderInvocation ''Codex'' True (Some ''hi there'') True
      None (Some ?p))) = Some [''codex'', ''resume'', ''--last'', ''--yes'', ''hi there'']"
    unfolding parts 4 by simp
  from h1(1) 1 2 h2 3 4 5 show ?thesis
    by (intro conjI)
qed

end
